theory Spec2Isabelle
  imports Complex_Main
begin

section \<open>Values exchanged with the HTTP layer\<close>

text \<open>
  Response bodies are JSON documents. JavaScript numbers that the handlers only pass
  around and compare (balances, indices, timestamps) are modelled by the rational they
  denote; no handler does arithmetic on a balance.
\<close>

datatype json =
    JNull
  | JBool bool
  | JNum rat
  | JStr string
  | JArr "json list"
  | JObj "(string \<times> json) list"

text \<open>
  \<open>res.status(c).json(b)\<close> gives \<open>code = c, body = Some b\<close>;
  \<open>res.status(c).end()\<close> gives \<open>body = None\<close>.
\<close>

record response =
  code :: nat
  body :: "json option"

definition json_response :: "nat \<Rightarrow> json \<Rightarrow> response" where
  "json_response c b = \<lparr>code = c, body = Some b\<rparr>"

definition end_response :: "nat \<Rightarrow> response" where
  "end_response c = \<lparr>code = c, body = None\<rparr>"

definition error_response :: "nat \<Rightarrow> string \<Rightarrow> response" where
  "error_response c msg = json_response c (JObj [(''error'', JStr msg)])"

fun jfield :: "string \<Rightarrow> json \<Rightarrow> json option" where
  "jfield k (JObj kvs) = map_of kvs k"
| "jfield k _ = None"

text \<open>
  A query parameter is absent (\<open>None\<close>), a string, or an array of strings when the
  name is repeated in the URL.
\<close>

datatype qval = QStr string | QArr "string list"

text \<open>JavaScript truthiness of a query value: only the empty string is falsy.\<close>

fun truthy_qval :: "qval option \<Rightarrow> bool" where
  "truthy_qval None = False"
| "truthy_qval (Some (QStr s)) = (s \<noteq> [])"
| "truthy_qval (Some (QArr xs)) = True"

fun join_comma :: "string list \<Rightarrow> string" where
  "join_comma [] = []"
| "join_comma [x] = x"
| "join_comma (x # y # ys) = x @ '','' @ join_comma (y # ys)"

text \<open>Interpolation of a query value into a template literal.\<close>

fun qval_text :: "qval option \<Rightarrow> string" where
  "qval_text None = ''undefined''"
| "qval_text (Some (QStr s)) = s"
| "qval_text (Some (QArr xs)) = join_comma xs"

text \<open>
  \<open>secret === v\<close> where \<open>v\<close> is a string or \<open>undefined\<close>: an array is never
  strictly equal to either.
\<close>

fun strict_eq :: "qval option \<Rightarrow> string option \<Rightarrow> bool" where
  "strict_eq None None = True"
| "strict_eq (Some (QStr s)) (Some t) = (s = t)"
| "strict_eq _ _ = False"

text \<open>Decimal text of an integer, as a template literal prints it.\<close>

fun string_of_nat :: "nat \<Rightarrow> string" where
  "string_of_nat n =
     (if n < 10 then [''0123456789'' ! n]
      else string_of_nat (n div 10) @ [''0123456789'' ! (n mod 10)])"

declare string_of_nat.simps [simp del]

definition string_of_int :: "int \<Rightarrow> string" where
  "string_of_int i =
     (if i < 0 then ''-'' @ string_of_nat (nat (- i)) else string_of_nat (nat i))"

section \<open>Session records and the key-value store\<close>

record metadata =
  mode :: string
  speed :: rat
  fileUri :: string
  answers :: "(string \<times> string) list"

record session =
  sessionId :: string
  sessionIndex :: int
  paymentAddress :: string
  outputType :: string
  metadata :: metadata
  status :: string
  createdAt :: int
  expiresAt :: int
  requiredUsdc :: rat
  buyerWallet :: string
  mintAddress :: "string option"
  mintSignature :: "string option"
  sweepSignature :: "string option"

text \<open>
  The store holds integer counters (written by \<open>redis.incr\<close>) and JSON session
  records (written by \<open>redis.set\<close>), each under its key. An absent key reads as
  \<open>null\<close>.
\<close>

record store =
  counters :: "string \<rightharpoonup> int"
  jsons :: "string \<rightharpoonup> session"

datatype redis_call =
    Get string
  | GetJson string
  | SetJson string session int
  | Incr string

text \<open>The request that a handler manufactures for the poll handler.\<close>

record poll_req =
  p_sessionId :: "qval option"
  p_test :: "string option"

datatype event =
    Redis redis_call
  | GetConnection
  | DeriveSession int
  | DeriveMaster
  | BalanceQuery string
  | PollCall poll_req
  | MintBroadcast string
  | SweepBroadcast string
  | ReadFile string
  | PinFile string string string
  | Unlink string

text \<open>
  The world a handler runs in: the store, and the trace of calls made to the store,
  the wallet library, the chain and the pinning service.
\<close>

record world =
  store :: store
  log :: "event list"

section \<open>Actions: state passing with thrown errors\<close>

text \<open>
  An action returns \<open>Inl msg\<close> when the awaited call throws an \<open>Error\<close> whose
  message is \<open>msg\<close>, together with the world as it is at that moment.
\<close>

type_synonym 'a act = "world \<Rightarrow> (string + 'a) \<times> world"

definition ret :: "'a \<Rightarrow> 'a act" where
  "ret x w = (Inr x, w)"

definition throw_error :: "string \<Rightarrow> 'a act" where
  "throw_error msg w = (Inl msg, w)"

definition bnd :: "'a act \<Rightarrow> ('a \<Rightarrow> 'b act) \<Rightarrow> 'b act" where
  "bnd m f w = (case m w of (Inl e, w') \<Rightarrow> (Inl e, w') | (Inr x, w') \<Rightarrow> f x w')"

definition call :: "event \<Rightarrow> (string + 'a) \<Rightarrow> 'a act" where
  "call ev r w = (r, w\<lparr>log := log w @ [ev]\<rparr>)"

text \<open>
  Everything outside the handlers: configuration, the modules under \<open>lib/\<close>, the
  clock, the file system and the pinning service. A call that throws gives \<open>Inl\<close> of
  the message. \<open>getSessionKeypair\<close> and \<open>getMasterKeypair\<close> give the base58
  address of the derived key pair, which is all the handlers use of it.
  \<open>pinFileToIPFS jwt filename mimeType content\<close> stands for the \<open>fetch\<close> of the
  pinning endpoint followed by \<open>pinRes.json()\<close>. \<open>mintNft\<close> and \<open>sweepUsdc\<close>
  are the broadcasts of the poll handler; the handlers below never call them directly.
\<close>

text \<open>
  What \<open>pinRes.json()\<close> gives: the \<open>IpfsHash\<close> member (absent when the
  upload was refused) and the text \<open>JSON.stringify\<close> prints for the document.
\<close>

record pin_data =
  IpfsHash :: "string option"
  stringified :: string

record env =
  RECOVER_SECRET :: "string option"
  PINATA_JWT :: "string option"
  REQUIRED_USDC :: rat
  import_error :: "string \<Rightarrow> string option"
  redis_error :: "redis_call \<Rightarrow> string option"
  getConnection :: "string + unit"
  getSessionKeypair :: "int \<Rightarrow> string + string"
  getMasterKeypair :: "string + string"
  getUsdcBalance :: "string \<Rightarrow> string + rat"
  date_now :: "nat \<Rightarrow> int"
  readFileSync :: "string \<Rightarrow> string + string"
  pinFileToIPFS :: "string \<Rightarrow> string \<Rightarrow> string \<Rightarrow> string \<Rightarrow> string + pin_data"
  mintNft :: "session \<Rightarrow> string + (string \<times> string)"
  sweepUsdc :: "session \<Rightarrow> string + string"

text \<open>\<open>await import(path)\<close>: the module loads, or its evaluation throws.\<close>

definition import_module :: "env \<Rightarrow> string \<Rightarrow> unit act" where
  "import_module d path =
     (case import_error d path of Some msg \<Rightarrow> throw_error msg | None \<Rightarrow> ret ())"

definition redis_get :: "env \<Rightarrow> string \<Rightarrow> int option act" where
  "redis_get d k w =
     call (Redis (Get k))
       (case redis_error d (Get k) of Some msg \<Rightarrow> Inl msg
        | None \<Rightarrow> Inr (counters (store w) k)) w"

definition redis_getJson :: "env \<Rightarrow> string \<Rightarrow> session option act" where
  "redis_getJson d k w =
     call (Redis (GetJson k))
       (case redis_error d (GetJson k) of Some msg \<Rightarrow> Inl msg
        | None \<Rightarrow> Inr (jsons (store w) k)) w"

definition redis_incr :: "env \<Rightarrow> string \<Rightarrow> int act" where
  "redis_incr d k w =
     (case redis_error d (Incr k) of
        Some msg \<Rightarrow> call (Redis (Incr k)) (Inl msg) w
      | None \<Rightarrow>
          (let n = (case counters (store w) k of None \<Rightarrow> 1 | Some c \<Rightarrow> c + 1)
           in call (Redis (Incr k)) (Inr n)
                (w\<lparr>store := (store w)\<lparr>counters := (counters (store w))(k \<mapsto> n)\<rparr>\<rparr>)))"

definition redis_set :: "env \<Rightarrow> string \<Rightarrow> session \<Rightarrow> int \<Rightarrow> unit act" where
  "redis_set d k s ttl w =
     (case redis_error d (SetJson k s ttl) of
        Some msg \<Rightarrow> call (Redis (SetJson k s ttl)) (Inl msg) w
      | None \<Rightarrow>
          call (Redis (SetJson k s ttl)) (Inr ())
            (w\<lparr>store := (store w)\<lparr>jsons := (jsons (store w))(k \<mapsto> s)\<rparr>\<rparr>))"

definition get_connection :: "env \<Rightarrow> unit act" where
  "get_connection d = call GetConnection (getConnection d)"

definition get_session_keypair :: "env \<Rightarrow> int \<Rightarrow> string act" where
  "get_session_keypair d i = call (DeriveSession i) (getSessionKeypair d i)"

definition get_master_keypair :: "env \<Rightarrow> string act" where
  "get_master_keypair d = call DeriveMaster (getMasterKeypair d)"

definition get_usdc_balance :: "env \<Rightarrow> string \<Rightarrow> rat act" where
  "get_usdc_balance d addr = call (BalanceQuery addr) (getUsdcBalance d addr)"

text \<open>
  What the poll handler did to the fake response object it was handed: the last code
  given to \<open>status\<close> and the last document given to \<open>json\<close>, if any.
\<close>

record poll_out =
  p_code :: "nat option"
  p_data :: "json option"

type_synonym poll_handler = "poll_req \<Rightarrow> poll_out act"

definition call_poll :: "poll_handler \<Rightarrow> poll_req \<Rightarrow> poll_out act" where
  "call_poll poll r w = poll r (w\<lparr>log := log w @ [PollCall r]\<rparr>)"

section \<open>api/recover.js\<close>

text \<open>
  \<open>parseInt(counter || '0')\<close> on what \<open>redis.get\<close> gives for a counter key:
  \<open>null\<close> and \<open>0\<close> are falsy and become \<open>'0'\<close>; an integer parses to itself.
  Counters are taken below \<open>2^53\<close> in magnitude, where a JavaScript number holds every
  integer exactly and \<open>i++\<close> is the successor; \<open>redis.incr\<close> from 0 stays there.
\<close>

definition parseInt_counter :: "int option \<Rightarrow> int" where
  "parseInt_counter counter =
     (case counter of None \<Rightarrow> 0 | Some n \<Rightarrow> if n = 0 then 0 else n)"

definition found_entry :: "int \<Rightarrow> string \<Rightarrow> rat \<Rightarrow> json" where
  "found_entry i addr bal =
     JObj [(''index'', JNum (of_int i)), (''address'', JStr addr), (''balance'', JNum bal)]"

text \<open>The loop \<open>for (let i = ...; i <= total; i++)\<close>, started at \<open>i\<close>; \<open>tot\<close> is the source's \<open>total\<close>.\<close>

function scan_loop :: "env \<Rightarrow> int \<Rightarrow> int \<Rightarrow> json list \<Rightarrow> json list act" where
  "scan_loop d i tot found w =
     (if i \<le> tot then
        (case get_connection d w of
           (Inl e, w1) \<Rightarrow> (Inl e, w1)
         | (Inr _, w1) \<Rightarrow>
             (case get_session_keypair d i w1 of
                (Inl e, w2) \<Rightarrow> (Inl e, w2)
              | (Inr kp, w2) \<Rightarrow>
                  (case get_usdc_balance d kp w2 of
                     (Inl e, w3) \<Rightarrow> (Inl e, w3)
                   | (Inr bal, w3) \<Rightarrow>
                       scan_loop d (i + 1) tot
                         (if bal > 0 then found @ [found_entry i kp bal] else found) w3)))
      else (Inr found, w))"
  by pat_completeness auto
termination
  by (relation "measure (\<lambda>(d, i, tot, found, w). nat (tot + 1 - i))") auto

declare scan_loop.simps [simp del]

definition recover_scan :: "env \<Rightarrow> response act" where
  "recover_scan d =
     bnd (redis_get d ''day-after-day:session-counter'') (\<lambda>counter.
       let tot = parseInt_counter counter in
       bnd (scan_loop d (max 1 (tot - 20)) tot []) (\<lambda>found.
         ret (json_response 200
           (JObj [(''scanned'', JNum (of_int tot)), (''walletsWithUsdc'', JArr found)]))))"

definition json_of_string_option :: "string option \<Rightarrow> json" where
  "json_of_string_option x = (case x of None \<Rightarrow> JNull | Some s \<Rightarrow> JStr s)"

definition recover_session :: "env \<Rightarrow> poll_handler \<Rightarrow> qval option \<Rightarrow> response act" where
  "recover_session d poll sid =
     bnd (redis_getJson d (''session:'' @ qval_text sid)) (\<lambda>loaded.
       case loaded of
         None \<Rightarrow> ret (error_response 404 ''Session not found'')
       | Some s \<Rightarrow>
           if status s = ''minted'' then
             ret (json_response 200
               (JObj [(''status'', JStr ''already minted''),
                      (''mintAddress'', json_of_string_option (mintAddress s))]))
           else
             bnd (get_connection d) (\<lambda>_.
             bnd (get_session_keypair d (sessionIndex s)) (\<lambda>kp.
             bnd (get_usdc_balance d kp) (\<lambda>balance.
               if balance < REQUIRED_USDC d then
                 ret (json_response 200
                   (JObj [(''status'', JStr ''insufficient balance''),
                          (''balance'', JNum balance),
                          (''required'', JNum (REQUIRED_USDC d)),
                          (''address'', JStr kp)]))
               else
                 bnd (import_module d ''./poll/[sessionId].js'') (\<lambda>_.
                 bnd (call_poll poll \<lparr>p_sessionId = sid, p_test = None\<rparr>) (\<lambda>out.
                   ret (json_response 200
                     (JObj [(''triggered'', JBool True),
                            (''result'', (case p_data out of None \<Rightarrow> JNull | Some j \<Rightarrow> j))]))))))))"

record recover_req =
  r_method :: string
  r_sessionId :: "qval option"
  r_secret :: "qval option"

definition recover_body :: "env \<Rightarrow> poll_handler \<Rightarrow> recover_req \<Rightarrow> response act" where
  "recover_body d poll req =
     bnd (import_module d ''../lib/redis.js'') (\<lambda>_.
     bnd (import_module d ''../lib/wallet.js'') (\<lambda>_.
     bnd (import_module d ''../lib/solana.js'') (\<lambda>_.
       if \<not> truthy_qval (r_sessionId req) then recover_scan d
       else recover_session d poll (r_sessionId req))))"

definition recover_handler :: "env \<Rightarrow> poll_handler \<Rightarrow> recover_req \<Rightarrow> world \<Rightarrow> response \<times> world" where
  "recover_handler d poll req w =
     (if r_method req = ''OPTIONS'' then (end_response 200, w)
      else if r_method req \<noteq> ''GET'' then (error_response 405 ''Method not allowed'', w)
      else if \<not> strict_eq (r_secret req) (RECOVER_SECRET d)
              \<and> \<not> strict_eq (r_secret req) (Some ''dayafterday2026'')
      then (error_response 401 ''Unauthorized'', w)
      else
        (case recover_body d poll req w of
           (Inl msg, w') \<Rightarrow> (error_response 500 msg, w')
         | (Inr r, w') \<Rightarrow> (r, w')))"

section \<open>api/test-mint.js\<close>

text \<open>
  Lines 99 to 126: the counter is incremented, the wallets are derived, the record is
  built and written with a time-to-live of thirty minutes. \<open>date_now d k\<close> is what
  the \<open>k\<close>-th call of \<open>Date.now()\<close> in the request returns.
\<close>

definition test_mint_create :: "env \<Rightarrow> session act" where
  "test_mint_create d =
     bnd (redis_incr d ''day-after-day:session-counter'') (\<lambda>idx.
     bnd (get_master_keypair d) (\<lambda>masterAddress.
     bnd (get_session_keypair d idx) (\<lambda>address.
       let sid = ''sess_'' @ string_of_int idx @ ''_'' @ string_of_int (date_now d 0);
           s = \<lparr>sessionId = sid,
                sessionIndex = idx,
                paymentAddress = address,
                outputType = ''photo'',
                metadata = \<lparr>mode = ''ember'', speed = 1,
                  fileUri = ''https://gateway.pinata.cloud/ipfs/bafkreigb4doitxxcdanajpe73f4bl7d3pn4iejt2vbpna4freziluvixyq'',
                  answers = [(''test'', ''true'')]\<rparr>,
                status = ''pending'',
                createdAt = date_now d 1,
                expiresAt = date_now d 2 + 60 * 30 * 1000,
                requiredUsdc = REQUIRED_USDC d,
                buyerWallet = masterAddress,
                mintAddress = None,
                mintSignature = None,
                sweepSignature = None\<rparr>
       in bnd (redis_set d (''session:'' @ sid) s (60 * 30)) (\<lambda>_. ret s))))"

definition test_mint_body :: "env \<Rightarrow> poll_handler \<Rightarrow> response act" where
  "test_mint_body d poll =
     bnd (import_module d ''../lib/redis.js'') (\<lambda>_.
     bnd (import_module d ''../lib/wallet.js'') (\<lambda>_.
     bnd (import_module d ''../lib/solana.js'') (\<lambda>_.
     bnd (test_mint_create d) (\<lambda>s.
     bnd (import_module d ''./poll/[sessionId].js'') (\<lambda>_.
     bnd (call_poll poll \<lparr>p_sessionId = Some (QStr (sessionId s)), p_test = Some ''true''\<rparr>) (\<lambda>out.
       ret (json_response (case p_code out of None \<Rightarrow> 200 | Some c \<Rightarrow> c)
         (JObj [(''sessionId'', JStr (sessionId s)),
                (''paymentAddress'', JStr (paymentAddress s)),
                (''mintResult'', (case p_data out of None \<Rightarrow> JNull | Some j \<Rightarrow> j))]))))))))"

definition test_mint_handler :: "env \<Rightarrow> poll_handler \<Rightarrow> string \<Rightarrow> world \<Rightarrow> response \<times> world" where
  "test_mint_handler d poll method w =
     (if method = ''OPTIONS'' then (end_response 200, w)
      else
        (case test_mint_body d poll w of
           (Inl msg, w') \<Rightarrow> (error_response 500 msg, w')
         | (Inr r, w') \<Rightarrow> (r, w')))"

section \<open>api/upload.js\<close>

text \<open>
  formidable hands a member of \<open>files\<close> or \<open>fields\<close> over as one value or as an
  array holding every value received under the name, so an array has a first element.
\<close>

datatype 'a multi = Single 'a | Several 'a "'a list"

record upload_file =
  filepath :: string
  mimetype :: "string option"

record form_data =
  files_file :: "upload_file multi option"
  fields_outputType :: "string multi option"

text \<open>\<open>u_form\<close> is what \<open>form.parse\<close> yields for the request body: an error or the parts.\<close>

record upload_req =
  u_method :: string
  u_form :: "string + form_data"

text \<open>
  Strings are sequences of UTF-8 bytes. \<open>white_space\<close> lists the encodings of the
  code points that \<open>String.prototype.trim\<close> strips: the white space U+0009, U+000B,
  U+000C, U+0020, U+00A0, U+1680, U+2000 to U+200A, U+202F, U+205F, U+3000 and U+FEFF,
  and the line terminators U+000A, U+000D, U+2028 and U+2029.
\<close>

definition white_space :: "string list" where
  "white_space =
     [[CHR 0x09], [CHR 0x0A], [CHR 0x0B], [CHR 0x0C], [CHR 0x0D], [CHR 0x20],
      [CHR 0xC2, CHR 0xA0],
      [CHR 0xE1, CHR 0x9A, CHR 0x80],
      [CHR 0xE2, CHR 0x80, CHR 0x80], [CHR 0xE2, CHR 0x80, CHR 0x81],
      [CHR 0xE2, CHR 0x80, CHR 0x82], [CHR 0xE2, CHR 0x80, CHR 0x83],
      [CHR 0xE2, CHR 0x80, CHR 0x84], [CHR 0xE2, CHR 0x80, CHR 0x85],
      [CHR 0xE2, CHR 0x80, CHR 0x86], [CHR 0xE2, CHR 0x80, CHR 0x87],
      [CHR 0xE2, CHR 0x80, CHR 0x88], [CHR 0xE2, CHR 0x80, CHR 0x89],
      [CHR 0xE2, CHR 0x80, CHR 0x8A],
      [CHR 0xE2, CHR 0x80, CHR 0xA8], [CHR 0xE2, CHR 0x80, CHR 0xA9],
      [CHR 0xE2, CHR 0x80, CHR 0xAF],
      [CHR 0xE2, CHR 0x81, CHR 0x9F],
      [CHR 0xE3, CHR 0x80, CHR 0x80],
      [CHR 0xEF, CHR 0xBB, CHR 0xBF]]"

text \<open>The length of the pattern that \<open>s\<close> starts with, or 0 when it starts with none.\<close>

definition match_len :: "string list \<Rightarrow> string \<Rightarrow> nat" where
  "match_len pats s =
     (case filter (\<lambda>p. take (length p) s = p) pats of [] \<Rightarrow> 0 | p # _ \<Rightarrow> length p)"

fun strip_front :: "string list \<Rightarrow> string \<Rightarrow> string" where
  "strip_front pats [] = []"
| "strip_front pats (c # cs) =
     (if match_len pats (c # cs) = 0 then c # cs
      else strip_front pats (drop (match_len pats (c # cs) - 1) cs))"

text \<open>
  \<open>String.prototype.trim\<close>: white space is stripped from the front, then from the
  end (the reversed encodings from the front of the reversed string).
\<close>

definition trim :: "string \<Rightarrow> string" where
  "trim s = rev (strip_front (map rev white_space) (rev (strip_front white_space s)))"

text \<open>\<open>Array.isArray(v) ? v[0] : v\<close>.\<close>

fun first_value :: "'a multi option \<Rightarrow> 'a option" where
  "first_value None = None"
| "first_value (Some (Single x)) = Some x"
| "first_value (Some (Several x xs)) = Some x"

text \<open>\<open>file.mimetype || 'video/webm'\<close>.\<close>

definition mime_or_default :: "string option \<Rightarrow> string" where
  "mime_or_default m =
     (case m of None \<Rightarrow> ''video/webm'' | Some t \<Rightarrow> if t = [] then ''video/webm'' else t)"

text \<open>
  \<open>Array.isArray(fields.outputType) ? fields.outputType[0] : (fields.outputType || 'video')\<close>.
\<close>

fun output_type_or_default :: "string multi option \<Rightarrow> string" where
  "output_type_or_default (Some (Several x xs)) = x"
| "output_type_or_default (Some (Single x)) = (if x = [] then ''video'' else x)"
| "output_type_or_default None = ''video''"

text \<open>\<open>mimeType.split('/')[1]?.split(';')[0] || 'bin'\<close>.\<close>

definition extension_of :: "string \<Rightarrow> string" where
  "extension_of m =
     (case dropWhile (\<lambda>c. c \<noteq> CHR ''/'') m of
        [] \<Rightarrow> ''bin''
      | _ # r \<Rightarrow>
          (let e = takeWhile (\<lambda>c. c \<noteq> CHR '';'') (takeWhile (\<lambda>c. c \<noteq> CHR ''/'') r)
           in if e = [] then ''bin'' else e))"

definition upload_body :: "env \<Rightarrow> upload_req \<Rightarrow> response act" where
  "upload_body d req =
     (let pinataJwt = trim (case PINATA_JWT d of None \<Rightarrow> [] | Some j \<Rightarrow> j) in
      if pinataJwt = [] then throw_error ''PINATA_JWT not configured''
      else
        bnd (import_module d ''formidable'') (\<lambda>_.
          case u_form req of
            Inl msg \<Rightarrow> throw_error msg
          | Inr form \<Rightarrow>
             (case first_value (files_file form) of
                None \<Rightarrow> throw_error ''No file provided''
              | Some file \<Rightarrow>
                  bnd (import_module d ''fs'') (\<lambda>_.
                  bnd (call (ReadFile (filepath file)) (readFileSync d (filepath file))) (\<lambda>fileBuffer.
                    let mimeType = mime_or_default (mimetype file);
                        outType = output_type_or_default (fields_outputType form);
                        filename = ''day-after-day-'' @ string_of_int (date_now d 0)
                                     @ ''.'' @ extension_of mimeType
                    in
                    bnd (call (PinFile filename mimeType fileBuffer)
                           (pinFileToIPFS d pinataJwt filename mimeType fileBuffer)) (\<lambda>pinData.
                      case IpfsHash pinData of
                        None \<Rightarrow> throw_error (''Pinata upload failed: '' @ stringified pinData)
                      | Some cid \<Rightarrow>
                          if cid = [] then
                            throw_error (''Pinata upload failed: '' @ stringified pinData)
                          else
                            bnd (call (Unlink (filepath file)) (Inr ())) (\<lambda>_.
                              ret (json_response 200
                                (JObj [(''success'', JBool True),
                                       (''fileUri'', JStr (''https://gateway.pinata.cloud/ipfs/'' @ cid)),
                                       (''cid'', JStr cid),
                                       (''mimeType'', JStr mimeType),
                                       (''outputType'', JStr outType)])))))))))"

definition upload_handler :: "env \<Rightarrow> upload_req \<Rightarrow> world \<Rightarrow> response \<times> world" where
  "upload_handler d req w =
     (if u_method req = ''OPTIONS'' then (end_response 200, w)
      else if u_method req \<noteq> ''POST'' then (error_response 405 ''Method not allowed'', w)
      else
        (case upload_body d req w of
           (Inl msg, w') \<Rightarrow> (error_response 500 msg, w')
         | (Inr r, w') \<Rightarrow> (r, w')))"

section \<open>The poll handler\<close>

text \<open>
  Modelled from the spec: the session lifecycle handler \<open>api/poll/[sessionId].js\<close>,
  which the recovery and test-mint handlers import and call, is not among the sources.
  The definition follows the contract of the Session Lifecycle Handler: the session must
  exist (else not found); a session already \<open>minted\<close> short-circuits with the
  recorded mint address; unless the \<open>test\<close> flag is set, a balance at the payment
  address below \<open>requiredUsdc\<close> returns "insufficient balance" with no state change;
  otherwise the Minting Client is invoked, on success \<open>mintAddress\<close> and
  \<open>mintSignature\<close> are written with status \<open>minted\<close>, the sweep is invoked and
  \<open>sweepSignature\<close> recorded. A sweep that fails after the mint leaves the session
  \<open>minted\<close> with \<open>sweepSignature\<close> null. \<open>ttl\<close> is the time-to-live of the
  writes, which the spec leaves open.
\<close>

definition poll_underpaid :: "env \<Rightarrow> poll_req \<Rightarrow> session \<Rightarrow> rat option act" where
  "poll_underpaid d r s =
     (if p_test r \<noteq> None then ret None
      else bnd (get_usdc_balance d (paymentAddress s)) (\<lambda>balance.
             ret (if balance < requiredUsdc s then Some balance else None)))"

definition pollHandler_spec :: "env \<Rightarrow> int \<Rightarrow> poll_handler" where
  "pollHandler_spec d ttl r =
     bnd (redis_getJson d (''session:'' @ qval_text (p_sessionId r))) (\<lambda>loaded.
       case loaded of
         None \<Rightarrow>
           ret \<lparr>p_code = Some 404, p_data = Some (JObj [(''error'', JStr ''Session not found'')])\<rparr>
       | Some s \<Rightarrow>
           if status s = ''minted'' then
             ret \<lparr>p_code = Some 200,
                  p_data = Some (JObj [(''status'', JStr ''minted''),
                                       (''mintAddress'', json_of_string_option (mintAddress s))])\<rparr>
           else
             bnd (poll_underpaid d r s) (\<lambda>short.
               case short of
                 Some balance \<Rightarrow>
                   ret \<lparr>p_code = Some 200,
                        p_data = Some (JObj [(''status'', JStr ''insufficient balance''),
                                             (''balance'', JNum balance),
                                             (''required'', JNum (requiredUsdc s))])\<rparr>
               | None \<Rightarrow>
                   bnd (call (MintBroadcast (fileUri (metadata s))) (mintNft d s)) (\<lambda>minted.
                     let s1 = s\<lparr>status := ''minted'', mintAddress := Some (fst minted),
                                 mintSignature := Some (snd minted)\<rparr>
                     in
                     bnd (redis_set d (''session:'' @ qval_text (p_sessionId r)) s1 ttl) (\<lambda>_.
                     bnd (call (SweepBroadcast (paymentAddress s)) (sweepUsdc d s1)) (\<lambda>swept.
                     bnd (redis_set d (''session:'' @ qval_text (p_sessionId r))
                            (s1\<lparr>sweepSignature := Some swept\<rparr>) ttl) (\<lambda>_.
                       ret \<lparr>p_code = Some 200,
                            p_data = Some (JObj [(''status'', JStr ''minted''),
                                                 (''mintAddress'', JStr (fst minted))])\<rparr>))))))"

section \<open>Properties stated about the handlers\<close>

definition libs_load :: "env \<Rightarrow> bool" where
  "libs_load d \<longleftrightarrow>
     import_error d ''../lib/redis.js'' = None \<and>
     import_error d ''../lib/wallet.js'' = None \<and>
     import_error d ''../lib/solana.js'' = None"

text \<open>The request passes the guard on the \<open>secret\<close> parameter.\<close>

definition authorized :: "env \<Rightarrow> qval option \<Rightarrow> bool" where
  "authorized d secret \<longleftrightarrow>
     strict_eq secret (RECOVER_SECRET d) \<or> strict_eq secret (Some ''dayafterday2026'')"

definition session_inv :: "session \<Rightarrow> bool" where
  "session_inv s \<longleftrightarrow> (mintAddress s \<noteq> None) = (status s = ''minted'')"

definition store_inv :: "store \<Rightarrow> bool" where
  "store_inv st \<longleftrightarrow> (\<forall>k s. jsons st k = Some s \<longrightarrow> session_inv s)"

text \<open>An action keeps the invariant of the store, whether it returns or throws.\<close>

definition keeps_inv :: "'a act \<Rightarrow> bool" where
  "keeps_inv m \<longleftrightarrow> (\<forall>w. store_inv (store w) \<longrightarrow> store_inv (store (snd (m w))))"

fun derived_indices :: "event list \<Rightarrow> int list" where
  "derived_indices [] = []"
| "derived_indices (DeriveSession i # es) = i # derived_indices es"
| "derived_indices (e # es) = derived_indices es"

fun is_store_write :: "event \<Rightarrow> bool" where
  "is_store_write (Redis (SetJson k s t)) = True"
| "is_store_write (Redis (Incr k)) = True"
| "is_store_write e = False"

text \<open>What a run of the scan loop over the indices \<open>xs\<close> calls and collects.\<close>

definition scan_calls :: "(int \<Rightarrow> string) \<Rightarrow> int list \<Rightarrow> event list" where
  "scan_calls addr xs =
     concat (map (\<lambda>i. [GetConnection, DeriveSession i, BalanceQuery (addr i)]) xs)"

definition scan_found :: "(int \<Rightarrow> string) \<Rightarrow> (int \<Rightarrow> rat) \<Rightarrow> int list \<Rightarrow> json list" where
  "scan_found addr bal xs =
     map (\<lambda>i. found_entry i (addr i) (bal i)) (filter (\<lambda>i. 0 < bal i) xs)"

text \<open>The \<open>status\<close> member of a response body, if it has one.\<close>

definition status_field :: "response \<Rightarrow> json option" where
  "status_field r = (case body r of None \<Rightarrow> None | Some j \<Rightarrow> jfield ''status'' j)"

text \<open>The member \<open>k\<close> of a response body, if it has one.\<close>

definition response_field :: "string \<Rightarrow> response \<Rightarrow> json option" where
  "response_field k r = (case body r of None \<Rightarrow> None | Some j \<Rightarrow> jfield k j)"

section \<open>Sample data\<close>

definition sample_env :: env where
  "sample_env =
     \<lparr>RECOVER_SECRET = Some ''open-sesame'',
      PINATA_JWT = Some '' pinata-jwt '',
      REQUIRED_USDC = 5,
      import_error = (\<lambda>p. None),
      redis_error = (\<lambda>c. None),
      getConnection = Inr (),
      getSessionKeypair = (\<lambda>i. Inr (''wallet'' @ string_of_int i)),
      getMasterKeypair = Inr ''master'',
      getUsdcBalance =
        (\<lambda>a. Inr (if a = ''wallet3'' then 12 else 0)),
      date_now = (\<lambda>k. 1700000000000 + int k),
      readFileSync = (\<lambda>p. Inr ''webm-bytes''),
      pinFileToIPFS = (\<lambda>jwt name mime content.
        if jwt = ''pinata-jwt''
        then Inr \<lparr>IpfsHash = Some (''cid-of-'' @ content), stringified = ''{IpfsHash}''\<rparr>
        else Inr \<lparr>IpfsHash = None, stringified = ''{error}''\<rparr>),
      mintNft = (\<lambda>s. Inr (''MintAddr'', ''MintSig'')),
      sweepUsdc = (\<lambda>s. Inr ''SweepSig'')\<rparr>"

definition sample_session :: session where
  "sample_session =
     \<lparr>sessionId = ''sess_7_1700000000000'',
      sessionIndex = 7,
      paymentAddress = ''wallet7'',
      outputType = ''photo'',
      metadata = \<lparr>mode = ''ember'', speed = 1, fileUri = ''https://gateway.pinata.cloud/ipfs/x'',
                  answers = []\<rparr>,
      status = ''pending'',
      createdAt = 1700000000000,
      expiresAt = 1700001800000,
      requiredUsdc = 5,
      buyerWallet = ''buyer'',
      mintAddress = None,
      mintSignature = None,
      sweepSignature = None\<rparr>"

definition minted_session :: session where
  "minted_session =
     sample_session\<lparr>status := ''minted'', mintAddress := Some ''MintAddr'',
                    mintSignature := Some ''MintSig''\<rparr>"

definition world_with :: "int option \<Rightarrow> session option \<Rightarrow> world" where
  "world_with c s =
     \<lparr>store = \<lparr>counters = (\<lambda>k. if k = ''day-after-day:session-counter'' then c else None),
                jsons = (\<lambda>k. if k = ''session:sess_7_1700000000000'' then s else None)\<rparr>,
      log = []\<rparr>"

definition sample_req :: "string option \<Rightarrow> string option \<Rightarrow> recover_req" where
  "sample_req sid secret =
     \<lparr>r_method = ''GET'', r_sessionId = map_option QStr sid, r_secret = map_option QStr secret\<rparr>"

text \<open>The wallet of the sample session funded with 4.999999.\<close>

definition underpaid_env :: env where
  "underpaid_env = sample_env\<lparr>getUsdcBalance := (\<lambda>a. Inr (4999999 / 1000000))\<rparr>"

text \<open>The required payment raised to 10 after the sample session was created with 5.\<close>

definition raised_env :: env where
  "raised_env = sample_env\<lparr>REQUIRED_USDC := 10, getUsdcBalance := (\<lambda>a. Inr 7)\<rparr>"

text \<open>What the test-mint handler creates on the sample store holding the counter 7.\<close>

definition created_session :: session where
  "created_session =
     \<lparr>sessionId = ''sess_8_1700000000000'',
      sessionIndex = 8,
      paymentAddress = ''wallet8'',
      outputType = ''photo'',
      metadata = \<lparr>mode = ''ember'', speed = 1,
        fileUri = ''https://gateway.pinata.cloud/ipfs/bafkreigb4doitxxcdanajpe73f4bl7d3pn4iejt2vbpna4freziluvixyq'',
        answers = [(''test'', ''true'')]\<rparr>,
      status = ''pending'',
      createdAt = 1700000000001,
      expiresAt = 1700001800002,
      requiredUsdc = 5,
      buyerWallet = ''master'',
      mintAddress = None,
      mintSignature = None,
      sweepSignature = None\<rparr>"

definition created_world :: world where
  "created_world =
     \<lparr>store =
        \<lparr>counters = (counters (store (world_with (Some 7) None)))
           (''day-after-day:session-counter'' \<mapsto> 8),
         jsons = (jsons (store (world_with (Some 7) None)))
           (''session:sess_8_1700000000000'' \<mapsto> created_session)\<rparr>,
      log = [Redis (Incr ''day-after-day:session-counter''), DeriveMaster, DeriveSession 8,
             Redis (SetJson ''session:sess_8_1700000000000'' created_session 1800)]\<rparr>"

text \<open>An upload of one file, with the given mime type and \<open>outputType\<close> field.\<close>

definition sample_upload :: "string option \<Rightarrow> string multi option \<Rightarrow> upload_req" where
  "sample_upload mime out =
     \<lparr>u_method = ''POST'',
      u_form = Inr \<lparr>files_file = Some (Several \<lparr>filepath = ''/tmp/upload1'', mimetype = mime\<rparr> []),
                    fields_outputType = out\<rparr>\<rparr>"

section \<open>The recovery handler past its guards\<close>

lemma recover_handler_authorized:
  assumes "r_method req = ''GET''" and "authorized d (r_secret req)" and "libs_load d"
  shows "recover_handler d poll req w =
     (case (if \<not> truthy_qval (r_sessionId req) then recover_scan d
            else recover_session d poll (r_sessionId req)) w of
        (Inl msg, w') \<Rightarrow> (error_response 500 msg, w')
      | (Inr r, w') \<Rightarrow> (r, w'))"
  using assms
  by (auto simp: recover_handler_def recover_body_def authorized_def libs_load_def
        bnd_def ret_def import_module_def)

lemma recover_session_minted:
  assumes "redis_error d (GetJson (''session:'' @ qval_text sid)) = None"
    and "jsons (store w) (''session:'' @ qval_text sid) = Some s"
    and "status s = ''minted''"
  shows "recover_session d poll sid w =
     (Inr (json_response 200
        (JObj [(''status'', JStr ''already minted''),
               (''mintAddress'', json_of_string_option (mintAddress s))])),
      w\<lparr>log := log w @ [Redis (GetJson (''session:'' @ qval_text sid))]\<rparr>)"
  using assms
  by (simp add: recover_session_def bnd_def ret_def redis_getJson_def call_def)

lemma recover_session_unpaid:
  assumes "redis_error d (GetJson (''session:'' @ qval_text sid)) = None"
    and "jsons (store w) (''session:'' @ qval_text sid) = Some s"
    and "status s \<noteq> ''minted''"
    and "getConnection d = Inr ()"
    and "getSessionKeypair d (sessionIndex s) = Inr kp"
    and "getUsdcBalance d kp = Inr b"
    and "b < REQUIRED_USDC d"
  shows "recover_session d poll sid w =
     (Inr (json_response 200
        (JObj [(''status'', JStr ''insufficient balance''),
               (''balance'', JNum b),
               (''required'', JNum (REQUIRED_USDC d)),
               (''address'', JStr kp)])),
      w\<lparr>log := log w @ [Redis (GetJson (''session:'' @ qval_text sid)), GetConnection,
                          DeriveSession (sessionIndex s), BalanceQuery kp]\<rparr>)"
  using assms
  by (simp add: recover_session_def bnd_def ret_def redis_getJson_def call_def
        get_connection_def get_session_keypair_def get_usdc_balance_def)

lemma sample_env_loads: "libs_load sample_env"
  by (simp add: libs_load_def sample_env_def)

lemma sample_env_redis_ok: "redis_error sample_env c = None"
  by (simp add: sample_env_def)

lemma sample_req_authorized:
  "authorized sample_env (r_secret (sample_req sid (Some ''open-sesame'')))"
  by (simp add: authorized_def sample_req_def sample_env_def)

section \<open>Recovery of a session that is already minted\<close>

text \<open>
  Claim C2. For every session whose stored status is \<open>minted\<close>, the recovery handler
  (on an authorized GET request naming the session, with the store answering) returns
  \<open>{status: 'already minted', mintAddress}\<close> with the recorded mint address, leaves
  the store as it was, and its only call is the one read of the record: the poll
  handler is not invoked and nothing is broadcast. Invoking it again gives the same
  response.
\<close>

theorem recover_minted_idempotent:
  assumes "r_method req = ''GET''" and "authorized d (r_secret req)"
    and "truthy_qval (r_sessionId req)" and "libs_load d"
    and "redis_error d (GetJson (''session:'' @ qval_text (r_sessionId req))) = None"
    and "jsons (store w) (''session:'' @ qval_text (r_sessionId req)) = Some s"
    and "status s = ''minted''"
  shows "fst (recover_handler d poll req w) =
           json_response 200
             (JObj [(''status'', JStr ''already minted''),
                    (''mintAddress'', json_of_string_option (mintAddress s))])
       \<and> store (snd (recover_handler d poll req w)) = store w
       \<and> log (snd (recover_handler d poll req w)) =
           log w @ [Redis (GetJson (''session:'' @ qval_text (r_sessionId req)))]
       \<and> fst (recover_handler d poll req (snd (recover_handler d poll req w))) =
           fst (recover_handler d poll req w)"
proof -
  let ?k = "''session:'' @ qval_text (r_sessionId req)"
  let ?w' = "w\<lparr>log := log w @ [Redis (GetJson ?k)]\<rparr>"
  have first: "recover_handler d poll req w =
      (json_response 200
         (JObj [(''status'', JStr ''already minted''),
                (''mintAddress'', json_of_string_option (mintAddress s))]), ?w')"
    using assms by (simp add: recover_handler_authorized recover_session_minted)
  have "jsons (store ?w') ?k = Some s"
    using assms(6) by simp
  then have second: "fst (recover_handler d poll req ?w') =
      json_response 200
         (JObj [(''status'', JStr ''already minted''),
                (''mintAddress'', json_of_string_option (mintAddress s))])"
    using assms by (simp add: recover_handler_authorized recover_session_minted)
  show ?thesis
    using first second by simp
qed

theorem recover_minted_idempotent_witness:
  "fst (recover_handler sample_env (pollHandler_spec sample_env 1800)
          (sample_req (Some ''sess_7_1700000000000'') (Some ''open-sesame''))
          (world_with (Some 7) (Some minted_session))) =
     json_response 200
       (JObj [(''status'', JStr ''already minted''), (''mintAddress'', JStr ''MintAddr'')])
   \<and> store (snd (recover_handler sample_env (pollHandler_spec sample_env 1800)
          (sample_req (Some ''sess_7_1700000000000'') (Some ''open-sesame''))
          (world_with (Some 7) (Some minted_session)))) =
     store (world_with (Some 7) (Some minted_session))
   \<and> log (snd (recover_handler sample_env (pollHandler_spec sample_env 1800)
          (sample_req (Some ''sess_7_1700000000000'') (Some ''open-sesame''))
          (world_with (Some 7) (Some minted_session)))) =
     [Redis (GetJson ''session:sess_7_1700000000000'')]"
proof -
  let ?req = "sample_req (Some ''sess_7_1700000000000'') (Some ''open-sesame'')"
  let ?w = "world_with (Some 7) (Some minted_session)"
  have m: "r_method ?req = ''GET''" by (simp add: sample_req_def)
  have t: "truthy_qval (r_sessionId ?req)" by (simp add: sample_req_def)
  have k: "''session:'' @ qval_text (r_sessionId ?req) = ''session:sess_7_1700000000000''"
    by (simp add: sample_req_def)
  have j: "jsons (store ?w) (''session:'' @ qval_text (r_sessionId ?req)) = Some minted_session"
    by (simp add: sample_req_def world_with_def)
  have st: "status minted_session = ''minted''"
    by (simp add: minted_session_def)
  have ma: "json_of_string_option (mintAddress minted_session) = JStr ''MintAddr''"
    by (simp add: minted_session_def json_of_string_option_def)
  have lg: "log ?w = []" by (simp add: world_with_def)
  show ?thesis
    using recover_minted_idempotent
      [OF m sample_req_authorized t sample_env_loads sample_env_redis_ok j st,
       of "pollHandler_spec sample_env 1800"]
    by (simp only: k ma lg append_Nil)
qed

lemma sample_req_fields:
  "r_method (sample_req sid sec) = ''GET''"
  "r_sessionId (sample_req sid sec) = map_option QStr sid"
  "r_secret (sample_req sid sec) = map_option QStr sec"
  by (simp_all add: sample_req_def)

lemma sample_env_fields:
  "getConnection sample_env = Inr ()"
  "getSessionKeypair sample_env i = Inr (''wallet'' @ string_of_int i)"
  "getUsdcBalance sample_env a = Inr (if a = ''wallet3'' then 12 else 0)"
  "REQUIRED_USDC sample_env = 5"
  "RECOVER_SECRET sample_env = Some ''open-sesame''"
  by (simp_all add: sample_env_def)

lemma string_of_int_7: "string_of_int 7 = ''7''"
  by (simp add: string_of_int_def string_of_nat.simps)

section \<open>The guard on the secret\<close>

text \<open>
  Claim C1, as amended. The guard compares the \<open>secret\<close> parameter with the configured
  \<open>RECOVER_SECRET\<close> and with the fixed fallback \<open>'dayafterday2026'\<close>. Every GET
  request whose secret is strictly equal to neither is answered 401
  \<open>{error: 'Unauthorized'}\<close>, whatever its other parameters, the store and the
  services are, and nothing is read, written or called.
\<close>

theorem recover_unauthorized:
  assumes "r_method req = ''GET''" and "\<not> authorized d (r_secret req)"
  shows "recover_handler d poll req w = (error_response 401 ''Unauthorized'', w)"
  using assms by (simp add: recover_handler_def authorized_def)

theorem recover_unauthorized_witness:
  "recover_handler sample_env (pollHandler_spec sample_env 1800)
     (sample_req (Some ''sess_7_1700000000000'') (Some ''guess''))
     (world_with (Some 7) (Some minted_session)) =
   (error_response 401 ''Unauthorized'', world_with (Some 7) (Some minted_session))"
proof -
  let ?req = "sample_req (Some ''sess_7_1700000000000'') (Some ''guess'')"
  have m: "r_method ?req = ''GET''" by (simp add: sample_req_def)
  have na: "\<not> authorized sample_env (r_secret ?req)"
    by (simp add: authorized_def sample_req_def sample_env_def)
  show ?thesis
    by (rule recover_unauthorized [OF m na])
qed

text \<open>
  The claim as first stated fails on the fallback: with \<open>RECOVER_SECRET\<close> set to
  \<open>'open-sesame'\<close>, a request carrying \<open>secret=dayafterday2026\<close> is let through
  and answered 200.
\<close>

theorem recover_fallback_secret_counterexample:
  "RECOVER_SECRET sample_env = Some ''open-sesame''
   \<and> r_secret (sample_req (Some ''sess_7_1700000000000'') (Some ''dayafterday2026''))
       = Some (QStr ''dayafterday2026'')
   \<and> fst (recover_handler sample_env (pollHandler_spec sample_env 1800)
          (sample_req (Some ''sess_7_1700000000000'') (Some ''dayafterday2026''))
          (world_with (Some 7) (Some minted_session))) =
      json_response 200
        (JObj [(''status'', JStr ''already minted''), (''mintAddress'', JStr ''MintAddr'')])
   \<and> code (fst (recover_handler sample_env (pollHandler_spec sample_env 1800)
          (sample_req (Some ''sess_7_1700000000000'') (Some ''dayafterday2026''))
          (world_with (Some 7) (Some minted_session)))) \<noteq> 401"
proof -
  let ?req = "sample_req (Some ''sess_7_1700000000000'') (Some ''dayafterday2026'')"
  let ?w = "world_with (Some 7) (Some minted_session)"
  have a: "authorized sample_env (r_secret ?req)"
    by (simp add: authorized_def sample_req_def)
  have j: "jsons (store ?w) (''session:'' @ qval_text (Some (QStr ''sess_7_1700000000000'')))
      = Some minted_session"
    by (simp add: world_with_def)
  have st: "status minted_session = ''minted''"
    by (simp add: minted_session_def)
  have ma: "json_of_string_option (mintAddress minted_session) = JStr ''MintAddr''"
    by (simp add: minted_session_def json_of_string_option_def)
  have "fst (recover_handler sample_env (pollHandler_spec sample_env 1800) ?req ?w) =
     json_response 200
       (JObj [(''status'', JStr ''already minted''),
              (''mintAddress'', json_of_string_option (mintAddress minted_session))])"
    by (simp add: recover_handler_authorized [OF sample_req_fields(1) a sample_env_loads]
          recover_session_minted [OF sample_env_redis_ok j st] sample_req_fields(2))
  then show ?thesis
    by (simp add: ma sample_env_fields(5) sample_req_fields(3) json_response_def)
qed

section \<open>Recovery of an unpaid session\<close>

text \<open>
  Claim C3. For every session with status \<open>pending\<close> whose derived wallet holds a
  balance below the requirement (balance 0 in particular, the requirement being
  positive), the recovery handler answers \<open>status: 'insufficient balance'\<close> and writes
  nothing to the store: the store is the same afterwards, the trace gains no write, and
  reading the record again yields the same object.
\<close>

theorem recover_pending_insufficient:
  assumes "r_method req = ''GET''" and "authorized d (r_secret req)"
    and "truthy_qval (r_sessionId req)" and "libs_load d"
    and "redis_error d (GetJson (''session:'' @ qval_text (r_sessionId req))) = None"
    and "jsons (store w) (''session:'' @ qval_text (r_sessionId req)) = Some s"
    and "status s = ''pending''"
    and "getConnection d = Inr ()"
    and "getSessionKeypair d (sessionIndex s) = Inr kp"
    and "getUsdcBalance d kp = Inr b"
    and "b < REQUIRED_USDC d"
  shows "fst (recover_handler d poll req w) =
           json_response 200
             (JObj [(''status'', JStr ''insufficient balance''),
                    (''balance'', JNum b),
                    (''required'', JNum (REQUIRED_USDC d)),
                    (''address'', JStr kp)])
       \<and> store (snd (recover_handler d poll req w)) = store w
       \<and> filter is_store_write (log (snd (recover_handler d poll req w))) =
           filter is_store_write (log w)
       \<and> fst (redis_getJson d (''session:'' @ qval_text (r_sessionId req))
                (snd (recover_handler d poll req w))) = Inr (Some s)"
proof -
  let ?k = "''session:'' @ qval_text (r_sessionId req)"
  have ne: "status s \<noteq> ''minted''"
    using assms(7) by simp
  have "recover_handler d poll req w =
      (json_response 200
         (JObj [(''status'', JStr ''insufficient balance''),
                (''balance'', JNum b),
                (''required'', JNum (REQUIRED_USDC d)),
                (''address'', JStr kp)]),
       w\<lparr>log := log w @ [Redis (GetJson ?k), GetConnection,
                           DeriveSession (sessionIndex s), BalanceQuery kp]\<rparr>)"
    using assms(1-4)
    by (simp add: recover_handler_authorized
          recover_session_unpaid [OF assms(5) assms(6) ne assms(8-11)])
  then show ?thesis
    using assms(5,6) by (simp add: redis_getJson_def call_def)
qed

theorem recover_pending_insufficient_witness:
  "fst (recover_handler sample_env (pollHandler_spec sample_env 1800)
          (sample_req (Some ''sess_7_1700000000000'') (Some ''open-sesame''))
          (world_with (Some 7) (Some sample_session))) =
     json_response 200
       (JObj [(''status'', JStr ''insufficient balance''), (''balance'', JNum 0),
              (''required'', JNum 5), (''address'', JStr ''wallet7'')])
   \<and> store (snd (recover_handler sample_env (pollHandler_spec sample_env 1800)
          (sample_req (Some ''sess_7_1700000000000'') (Some ''open-sesame''))
          (world_with (Some 7) (Some sample_session)))) =
     store (world_with (Some 7) (Some sample_session))
   \<and> fst (redis_getJson sample_env ''session:sess_7_1700000000000''
        (snd (recover_handler sample_env (pollHandler_spec sample_env 1800)
          (sample_req (Some ''sess_7_1700000000000'') (Some ''open-sesame''))
          (world_with (Some 7) (Some sample_session))))) = Inr (Some sample_session)"
proof -
  let ?req = "sample_req (Some ''sess_7_1700000000000'') (Some ''open-sesame'')"
  let ?w = "world_with (Some 7) (Some sample_session)"
  have m: "r_method ?req = ''GET''" by (simp add: sample_req_def)
  have t: "truthy_qval (r_sessionId ?req)" by (simp add: sample_req_def)
  have k: "''session:'' @ qval_text (r_sessionId ?req) = ''session:sess_7_1700000000000''"
    by (simp add: sample_req_def)
  have j: "jsons (store ?w) (''session:'' @ qval_text (r_sessionId ?req)) = Some sample_session"
    by (simp add: sample_req_def world_with_def)
  have st: "status sample_session = ''pending''"
    by (simp add: sample_session_def)
  have kp: "getSessionKeypair sample_env (sessionIndex sample_session) = Inr ''wallet7''"
    by (simp add: sample_session_def sample_env_fields string_of_int_7)
  have b: "getUsdcBalance sample_env ''wallet7'' = Inr 0"
    by (simp add: sample_env_fields)
  have lt: "(0::rat) < REQUIRED_USDC sample_env"
    by (simp add: sample_env_fields)
  show ?thesis
    using recover_pending_insufficient
      [OF m sample_req_authorized t sample_env_loads sample_env_redis_ok j st
          sample_env_fields(1) kp b lt, of "pollHandler_spec sample_env 1800"]
    by (simp only: k sample_env_fields(4))
qed

section \<open>Scanning with no session counted yet\<close>

text \<open>
  Claim C9. When the recovery handler is invoked without a \<open>sessionId\<close> and the
  counter key is absent or holds 0, it derives no wallet and queries no balance (its
  only call is the read of the counter) and returns
  \<open>{scanned: 0, walletsWithUsdc: []}\<close>.
\<close>

theorem recover_scan_empty_counter:
  assumes "r_method req = ''GET''" and "authorized d (r_secret req)"
    and "\<not> truthy_qval (r_sessionId req)" and "libs_load d"
    and "redis_error d (Get ''day-after-day:session-counter'') = None"
    and "counters (store w) ''day-after-day:session-counter'' = None
         \<or> counters (store w) ''day-after-day:session-counter'' = Some 0"
  shows "recover_handler d poll req w =
     (json_response 200 (JObj [(''scanned'', JNum 0), (''walletsWithUsdc'', JArr [])]),
      w\<lparr>log := log w @ [Redis (Get ''day-after-day:session-counter'')]\<rparr>)"
proof -
  have "parseInt_counter (counters (store w) ''day-after-day:session-counter'') = 0"
    using assms(6) by (auto simp: parseInt_counter_def)
  then have "recover_scan d w =
     (Inr (json_response 200 (JObj [(''scanned'', JNum 0), (''walletsWithUsdc'', JArr [])])),
      w\<lparr>log := log w @ [Redis (Get ''day-after-day:session-counter'')]\<rparr>)"
    using assms(5)
    by (simp add: recover_scan_def bnd_def ret_def redis_get_def call_def scan_loop.simps)
  then show ?thesis
    using assms(1-4) by (simp add: recover_handler_authorized)
qed

theorem recover_scan_empty_counter_witness:
  "recover_handler sample_env (pollHandler_spec sample_env 1800)
     (sample_req None (Some ''open-sesame'')) (world_with None None) =
     (json_response 200 (JObj [(''scanned'', JNum 0), (''walletsWithUsdc'', JArr [])]),
      (world_with None None)\<lparr>log := [Redis (Get ''day-after-day:session-counter'')]\<rparr>)
   \<and> recover_handler sample_env (pollHandler_spec sample_env 1800)
     (sample_req None (Some ''open-sesame'')) (world_with (Some 0) None) =
     (json_response 200 (JObj [(''scanned'', JNum 0), (''walletsWithUsdc'', JArr [])]),
      (world_with (Some 0) None)\<lparr>log := [Redis (Get ''day-after-day:session-counter'')]\<rparr>)"
proof -
  let ?req = "sample_req None (Some ''open-sesame'')"
  have m: "r_method ?req = ''GET''" by (simp add: sample_req_def)
  have t: "\<not> truthy_qval (r_sessionId ?req)" by (simp add: sample_req_def)
  have c1: "counters (store (world_with None None)) ''day-after-day:session-counter'' = None
      \<or> counters (store (world_with None None)) ''day-after-day:session-counter'' = Some 0"
    by (simp add: world_with_def)
  have c2: "counters (store (world_with (Some 0) None)) ''day-after-day:session-counter'' = None
      \<or> counters (store (world_with (Some 0) None)) ''day-after-day:session-counter'' = Some 0"
    by (simp add: world_with_def)
  have l: "log (world_with c None) = []" for c
    by (simp add: world_with_def)
  show ?thesis
    using recover_scan_empty_counter
        [OF m sample_req_authorized t sample_env_loads sample_env_redis_ok c1,
         of "pollHandler_spec sample_env 1800"]
      recover_scan_empty_counter
        [OF m sample_req_authorized t sample_env_loads sample_env_redis_ok c2,
         of "pollHandler_spec sample_env 1800"]
    by (simp add: l)
qed

lemma recover_session_paid:
  assumes "redis_error d (GetJson (''session:'' @ qval_text sid)) = None"
    and "jsons (store w) (''session:'' @ qval_text sid) = Some s"
    and "status s \<noteq> ''minted''"
    and "getConnection d = Inr ()"
    and "getSessionKeypair d (sessionIndex s) = Inr kp"
    and "getUsdcBalance d kp = Inr b"
    and "\<not> b < REQUIRED_USDC d"
  shows "(case fst (recover_session d poll sid w) of
            Inl msg \<Rightarrow> True
          | Inr r \<Rightarrow> \<exists>j. r = json_response 200 (JObj [(''triggered'', JBool True), (''result'', j)]))"
  using assms
  by (auto simp: recover_session_def bnd_def ret_def redis_getJson_def call_def
        get_connection_def get_session_keypair_def get_usdc_balance_def
        import_module_def throw_error_def call_poll_def
        split: option.splits sum.splits prod.splits)

lemma test_mint_create_snapshot:
  assumes "test_mint_create d w0 = (Inr s', w1)"
  shows "requiredUsdc s' = REQUIRED_USDC d"
  using assms
  by (auto simp: test_mint_create_def bnd_def ret_def Let_def redis_incr_def redis_set_def
        call_def get_master_keypair_def get_session_keypair_def
        split: option.splits sum.splits prod.splits if_splits)

lemma underpaid_env_fields:
  "getConnection underpaid_env = Inr ()"
  "getSessionKeypair underpaid_env i = Inr (''wallet'' @ string_of_int i)"
  "getUsdcBalance underpaid_env a = Inr (4999999 / 1000000)"
  "REQUIRED_USDC underpaid_env = 5"
  "redis_error underpaid_env c = None"
  "libs_load underpaid_env"
  "authorized underpaid_env (Some (QStr ''open-sesame''))"
  by (simp_all add: underpaid_env_def sample_env_def libs_load_def authorized_def)

lemma raised_env_fields:
  "getConnection raised_env = Inr ()"
  "getSessionKeypair raised_env i = Inr (''wallet'' @ string_of_int i)"
  "getUsdcBalance raised_env a = Inr 7"
  "REQUIRED_USDC raised_env = 10"
  "redis_error raised_env c = None"
  "libs_load raised_env"
  "authorized raised_env (Some (QStr ''open-sesame''))"
  by (simp_all add: raised_env_def sample_env_def libs_load_def authorized_def)

lemma sample_session_fields:
  "status sample_session = ''pending''"
  "sessionIndex sample_session = 7"
  "requiredUsdc sample_session = 5"
  "mintAddress sample_session = None"
  by (simp_all add: sample_session_def)

lemma world_with_session:
  "jsons (store (world_with c s)) (''session:'' @ qval_text (Some (QStr ''sess_7_1700000000000''))) = s"
  by (simp add: world_with_def)

section \<open>Which requirement the recovery handler compares with\<close>

text \<open>
  Claim C4, as amended. For every session not yet minted, the recovery handler takes the
  insufficiency decision and the \<open>required\<close> member of the response from the constant
  \<open>REQUIRED_USDC\<close> in force when the request is handled, which is the value that
  session creation copies into \<open>requiredUsdc\<close>; the stored \<open>requiredUsdc\<close> is not
  read. A balance below the constant is answered
  \<open>{status: 'insufficient balance', balance, required: REQUIRED_USDC, address}\<close>;
  a balance at or above it is never answered with a \<open>status\<close> member.
\<close>

theorem recover_requirement_is_constant:
  assumes "r_method req = ''GET''" and "authorized d (r_secret req)"
    and "truthy_qval (r_sessionId req)" and "libs_load d"
    and "redis_error d (GetJson (''session:'' @ qval_text (r_sessionId req))) = None"
    and "jsons (store w) (''session:'' @ qval_text (r_sessionId req)) = Some s"
    and "status s \<noteq> ''minted''"
    and "getConnection d = Inr ()"
    and "getSessionKeypair d (sessionIndex s) = Inr kp"
    and "getUsdcBalance d kp = Inr b"
  shows "(b < REQUIRED_USDC d \<longrightarrow>
            fst (recover_handler d poll req w) =
              json_response 200
                (JObj [(''status'', JStr ''insufficient balance''),
                       (''balance'', JNum b),
                       (''required'', JNum (REQUIRED_USDC d)),
                       (''address'', JStr kp)]))
       \<and> (\<not> b < REQUIRED_USDC d \<longrightarrow>
            status_field (fst (recover_handler d poll req w)) = None)
       \<and> (\<forall>w0 s' w1. test_mint_create d w0 = (Inr s', w1) \<longrightarrow>
            requiredUsdc s' = REQUIRED_USDC d)"
proof (intro conjI impI allI)
  assume "b < REQUIRED_USDC d"
  then show "fst (recover_handler d poll req w) =
      json_response 200
        (JObj [(''status'', JStr ''insufficient balance''),
               (''balance'', JNum b),
               (''required'', JNum (REQUIRED_USDC d)),
               (''address'', JStr kp)])"
    using assms(1-4)
    by (simp add: recover_handler_authorized recover_session_unpaid [OF assms(5-10)])
next
  assume "\<not> b < REQUIRED_USDC d"
  then have "case fst (recover_session d poll (r_sessionId req) w) of
            Inl msg \<Rightarrow> True
          | Inr r \<Rightarrow> \<exists>j. r = json_response 200 (JObj [(''triggered'', JBool True), (''result'', j)])"
    by (rule recover_session_paid [OF assms(5-10)])
  then show "status_field (fst (recover_handler d poll req w)) = None"
    using assms(1-4)
    by (auto simp: recover_handler_authorized status_field_def json_response_def
          error_response_def split: sum.splits prod.splits)
next
  fix w0 s' w1
  assume "test_mint_create d w0 = (Inr s', w1)"
  then show "requiredUsdc s' = REQUIRED_USDC d"
    by (rule test_mint_create_snapshot)
qed

text \<open>
  The scenario of the claim: the constant is 5, as it was when the session was created,
  and the wallet holds 4.999999.
\<close>

theorem recover_requirement_is_constant_witness:
  "requiredUsdc sample_session = 5
   \<and> getUsdcBalance underpaid_env ''wallet7'' = Inr (4999999 / 1000000)
   \<and> fst (recover_handler underpaid_env (pollHandler_spec underpaid_env 1800)
          (sample_req (Some ''sess_7_1700000000000'') (Some ''open-sesame''))
          (world_with (Some 7) (Some sample_session))) =
      json_response 200
        (JObj [(''status'', JStr ''insufficient balance''),
               (''balance'', JNum (4999999 / 1000000)),
               (''required'', JNum 5),
               (''address'', JStr ''wallet7'')])"
proof -
  let ?req = "sample_req (Some ''sess_7_1700000000000'') (Some ''open-sesame'')"
  let ?w = "world_with (Some 7) (Some sample_session)"
  have m: "r_method ?req = ''GET''" by (simp add: sample_req_def)
  have a: "authorized underpaid_env (r_secret ?req)"
    by (simp add: sample_req_def underpaid_env_fields)
  have t: "truthy_qval (r_sessionId ?req)" by (simp add: sample_req_def)
  have r: "redis_error underpaid_env (GetJson (''session:'' @ qval_text (r_sessionId ?req))) = None"
    by (rule underpaid_env_fields)
  have j: "jsons (store ?w) (''session:'' @ qval_text (r_sessionId ?req)) = Some sample_session"
    by (simp add: sample_req_def world_with_def)
  have st: "status sample_session \<noteq> ''minted''"
    by (simp add: sample_session_fields)
  have kp: "getSessionKeypair underpaid_env (sessionIndex sample_session) = Inr ''wallet7''"
    by (simp add: sample_session_fields underpaid_env_fields string_of_int_7)
  have lt: "(4999999 / 1000000 :: rat) < REQUIRED_USDC underpaid_env"
    by (simp add: underpaid_env_fields)
  show ?thesis
    using recover_requirement_is_constant
      [OF m a t underpaid_env_fields(6) r j st underpaid_env_fields(1) kp
          underpaid_env_fields(3), of "pollHandler_spec underpaid_env 1800"] lt
    by (simp add: underpaid_env_fields sample_session_fields)
qed

text \<open>
  The claim as first stated fails once the constant has changed after creation: the
  session was created with \<open>requiredUsdc = 5\<close>, its wallet holds 7, the constant is
  now 10, and the answer is "insufficient balance" with \<open>required: 10\<close>.
\<close>

theorem recover_ignores_snapshot_counterexample:
  "requiredUsdc sample_session = 5
   \<and> getUsdcBalance raised_env ''wallet7'' = Inr 7
   \<and> \<not> (7 < requiredUsdc sample_session)
   \<and> fst (recover_handler raised_env (pollHandler_spec raised_env 1800)
          (sample_req (Some ''sess_7_1700000000000'') (Some ''open-sesame''))
          (world_with (Some 7) (Some sample_session))) =
      json_response 200
        (JObj [(''status'', JStr ''insufficient balance''),
               (''balance'', JNum 7),
               (''required'', JNum 10),
               (''address'', JStr ''wallet7'')])"
proof -
  let ?req = "sample_req (Some ''sess_7_1700000000000'') (Some ''open-sesame'')"
  let ?w = "world_with (Some 7) (Some sample_session)"
  have a: "authorized raised_env (r_secret ?req)"
    by (simp add: sample_req_def raised_env_fields)
  have j: "jsons (store ?w) (''session:'' @ qval_text (Some (QStr ''sess_7_1700000000000'')))
      = Some sample_session"
    by (rule world_with_session)
  have st: "status sample_session \<noteq> ''minted''"
    by (simp add: sample_session_fields)
  have kp: "getSessionKeypair raised_env (sessionIndex sample_session) = Inr ''wallet7''"
    by (simp add: sample_session_fields raised_env_fields string_of_int_7)
  have lt: "(7 :: rat) < REQUIRED_USDC raised_env"
    by (simp add: raised_env_fields)
  have "fst (recover_handler raised_env (pollHandler_spec raised_env 1800) ?req ?w) =
      json_response 200
        (JObj [(''status'', JStr ''insufficient balance''),
               (''balance'', JNum 7),
               (''required'', JNum (REQUIRED_USDC raised_env)),
               (''address'', JStr ''wallet7'')])"
    by (simp add: recover_handler_authorized [OF sample_req_fields(1) a raised_env_fields(6)]
          recover_session_unpaid [OF raised_env_fields(5) j st raised_env_fields(1) kp
            raised_env_fields(3) lt] sample_req_fields(2))
  then show ?thesis
    by (simp add: raised_env_fields sample_session_fields)
qed

section \<open>The scan over recent session indices\<close>

lemma scan_loop_run:
  assumes "getConnection d = Inr ()"
    and "\<forall>i. lo \<le> i \<and> i \<le> tot \<longrightarrow> getSessionKeypair d i = Inr (addr i)"
    and "\<forall>i. lo \<le> i \<and> i \<le> tot \<longrightarrow> getUsdcBalance d (addr i) = Inr (bal i)"
  shows "scan_loop d lo tot found w =
     (Inr (found @ scan_found addr bal [lo..tot]),
      w\<lparr>log := log w @ scan_calls addr [lo..tot]\<rparr>)"
  using assms(2,3)
proof (induction "nat (tot + 1 - lo)" arbitrary: lo found w)
  case 0
  then have "\<not> lo \<le> tot" by simp
  then show ?case
    by (simp add: scan_loop.simps [of d lo] scan_found_def scan_calls_def)
next
  case (Suc n)
  then have le: "lo \<le> tot" by simp
  have n: "n = nat (tot + 1 - (lo + 1))"
    using Suc.hyps(2) by simp
  have kp: "getSessionKeypair d lo = Inr (addr lo)"
    using Suc.prems(1) le by simp
  have b: "getUsdcBalance d (addr lo) = Inr (bal lo)"
    using Suc.prems(2) le by simp
  have rest: "scan_loop d (lo + 1) tot found' w' =
     (Inr (found' @ scan_found addr bal [lo + 1..tot]),
      w'\<lparr>log := log w' @ scan_calls addr [lo + 1..tot]\<rparr>)" for found' w'
    using Suc.hyps(1) [OF n] Suc.prems by simp
  have up: "[lo..tot] = lo # [lo + 1..tot]"
    using le by (simp add: upto_rec1)
  show ?case
    using le
    by (simp add: scan_loop.simps [of d lo] assms(1) kp b rest up
          get_connection_def get_session_keypair_def get_usdc_balance_def call_def
          scan_found_def scan_calls_def)
qed

lemma derived_indices_append:
  "derived_indices (es @ fs) = derived_indices es @ derived_indices fs"
  by (induction es rule: derived_indices.induct) simp_all

lemma derived_indices_scan_calls: "derived_indices (scan_calls addr xs) = xs"
  by (induction xs) (simp_all add: scan_calls_def)

lemma store_writes_scan_calls: "filter is_store_write (scan_calls addr xs) = []"
  by (induction xs) (simp_all add: scan_calls_def)

lemma recover_scan_run:
  assumes "redis_error d (Get ''day-after-day:session-counter'') = None"
    and "getConnection d = Inr ()"
    and "\<forall>i. getSessionKeypair d i = Inr (addr i)"
    and "\<forall>i. getUsdcBalance d (addr i) = Inr (bal i)"
    and "tot = parseInt_counter (counters (store w) ''day-after-day:session-counter'')"
  shows "recover_scan d w =
     (Inr (json_response 200
        (JObj [(''scanned'', JNum (of_int tot)),
               (''walletsWithUsdc'', JArr (scan_found addr bal [max 1 (tot - 20)..tot]))])),
      w\<lparr>log := log w @ Redis (Get ''day-after-day:session-counter'')
                   # scan_calls addr [max 1 (tot - 20)..tot]\<rparr>)"
proof -
  have "scan_loop d (max 1 (tot - 20)) tot [] w' =
     (Inr ([] @ scan_found addr bal [max 1 (tot - 20)..tot]),
      w'\<lparr>log := log w' @ scan_calls addr [max 1 (tot - 20)..tot]\<rparr>)" for w'
    by (rule scan_loop_run) (use assms in simp_all)
  then show ?thesis
    using assms(1,5)
    by (simp add: recover_scan_def bnd_def ret_def redis_get_def call_def Let_def)
qed

lemma upto_1_21: "[1..21::int] = [1,2,3,4,5,6,7,8,9,10,11,12,13,14,15,16,17,18,19,20,21]"
  by code_simp

text \<open>
  Claim C5. Without a \<open>sessionId\<close> the handler reads the counter, derives the wallet
  of each index it scans and queries its balance. The loop runs from
  \<open>max(1, total - 20)\<close> to \<open>total\<close> inclusive: with the counter at 21 it derives the
  wallets of the indices 1 to 21, which is 21 indices and not the last 20.
\<close>

theorem recover_scan_visits_21:
  "derived_indices (log (snd (recover_handler sample_env (pollHandler_spec sample_env 1800)
      (sample_req None (Some ''open-sesame'')) (world_with (Some 21) None)))) =
     [1,2,3,4,5,6,7,8,9,10,11,12,13,14,15,16,17,18,19,20,21]
   \<and> length (derived_indices (log (snd (recover_handler sample_env
      (pollHandler_spec sample_env 1800)
      (sample_req None (Some ''open-sesame'')) (world_with (Some 21) None))))) = 21"
proof -
  let ?req = "sample_req None (Some ''open-sesame'')"
  let ?w = "world_with (Some 21) None"
  let ?addr = "\<lambda>i. ''wallet'' @ string_of_int i"
  let ?bal = "\<lambda>i. if ?addr i = ''wallet3'' then (12::rat) else 0"
  have t: "\<not> truthy_qval (r_sessionId ?req)" by (simp add: sample_req_def)
  have lg: "log ?w = []" by (simp add: world_with_def)
  have tot: "21 = parseInt_counter (counters (store ?w) ''day-after-day:session-counter'')"
    by (simp add: world_with_def parseInt_counter_def)
  have run: "recover_scan sample_env ?w =
     (Inr (json_response 200
        (JObj [(''scanned'', JNum (of_int 21)),
               (''walletsWithUsdc'', JArr (scan_found ?addr ?bal [max 1 (21 - 20)..21]))])),
      ?w\<lparr>log := log ?w @ Redis (Get ''day-after-day:session-counter'')
                   # scan_calls ?addr [max 1 (21 - 20)..21]\<rparr>)"
    by (rule recover_scan_run [OF sample_env_redis_ok sample_env_fields(1) _ _ tot])
       (simp_all add: sample_env_fields)
  have "derived_indices (log (snd (recover_handler sample_env (pollHandler_spec sample_env 1800)
      ?req ?w))) = [1..21]"
    using t lg
    by (simp add: recover_handler_authorized [OF sample_req_fields(1) sample_req_authorized
          sample_env_loads] run derived_indices_append derived_indices_scan_calls)
  then show ?thesis
    by (simp add: upto_1_21)
qed

section \<open>Session creation\<close>

lemma test_mint_create_result:
  assumes "test_mint_create d w = (Inr s, w')"
  shows "redis_error d (Incr ''day-after-day:session-counter'') = None"
    and "sessionIndex s =
           (case counters (store w) ''day-after-day:session-counter'' of
              None \<Rightarrow> 1 | Some c \<Rightarrow> c + 1)"
    and "sessionId s =
           ''sess_'' @ string_of_int (sessionIndex s) @ ''_'' @ string_of_int (date_now d 0)"
    and "getSessionKeypair d (sessionIndex s) = Inr (paymentAddress s)"
    and "status s = ''pending''"
    and "mintAddress s = None" and "mintSignature s = None" and "sweepSignature s = None"
    and "store w' = \<lparr>counters = (counters (store w))
                        (''day-after-day:session-counter'' \<mapsto> sessionIndex s),
                      jsons = (jsons (store w))((''session:'' @ sessionId s) \<mapsto> s)\<rparr>"
  using assms
  by (auto simp: test_mint_create_def bnd_def ret_def Let_def redis_incr_def redis_set_def
        call_def get_master_keypair_def get_session_keypair_def
        split: option.splits sum.splits prod.splits if_splits)

lemma string_of_int_samples:
  "string_of_int 8 = ''8''"
  "string_of_int 1700000000000 = ''1700000000000''"
  by (simp_all add: string_of_int_def string_of_nat.simps)

lemma sample_creation:
  "test_mint_create sample_env (world_with (Some 7) None) = (Inr created_session, created_world)"
  by (simp add: test_mint_create_def bnd_def ret_def Let_def redis_incr_def redis_set_def
        call_def get_master_keypair_def get_session_keypair_def sample_env_def
        string_of_int_samples created_session_def created_world_def world_with_def)

text \<open>
  Claim C8. Every session created by the handler has the \<open>sessionId\<close>
  \<open>sess_<index>_<epochMillis>\<close>, where the index is the value that incrementing the
  counter returned for this creation and the milliseconds are the clock reading taken
  when the id is built; the record is stored under \<open>session:<sessionId>\<close>. The counter
  is left at the index, so a later creation, on any store whose counter has not gone
  below it, gets a strictly larger index.
\<close>

theorem test_mint_session_id:
  assumes "test_mint_create d w = (Inr s, w')"
  shows "sessionIndex s =
           (case counters (store w) ''day-after-day:session-counter'' of
              None \<Rightarrow> 1 | Some c \<Rightarrow> c + 1)
       \<and> counters (store w') ''day-after-day:session-counter'' = Some (sessionIndex s)
       \<and> sessionId s =
           ''sess_'' @ string_of_int (sessionIndex s) @ ''_'' @ string_of_int (date_now d 0)
       \<and> jsons (store w') (''session:'' @ sessionId s) = Some s
       \<and> (\<forall>d2 v c s2 v'.
             counters (store v) ''day-after-day:session-counter'' = Some c
             \<and> sessionIndex s \<le> c
             \<and> test_mint_create d2 v = (Inr s2, v')
             \<longrightarrow> sessionIndex s < sessionIndex s2)"
proof (intro conjI allI impI)
  show "sessionIndex s =
      (case counters (store w) ''day-after-day:session-counter'' of None \<Rightarrow> 1 | Some c \<Rightarrow> c + 1)"
    by (rule test_mint_create_result(2) [OF assms])
  show "counters (store w') ''day-after-day:session-counter'' = Some (sessionIndex s)"
    by (simp add: test_mint_create_result(9) [OF assms])
  show "sessionId s =
      ''sess_'' @ string_of_int (sessionIndex s) @ ''_'' @ string_of_int (date_now d 0)"
    by (rule test_mint_create_result(3) [OF assms])
  show "jsons (store w') (''session:'' @ sessionId s) = Some s"
    by (simp add: test_mint_create_result(9) [OF assms])
next
  fix d2 v c s2 v'
  assume a: "counters (store v) ''day-after-day:session-counter'' = Some c
      \<and> sessionIndex s \<le> c \<and> test_mint_create d2 v = (Inr s2, v')"
  then have "sessionIndex s2 = c + 1"
    using test_mint_create_result(2) [of d2 v s2 v'] by simp
  then show "sessionIndex s < sessionIndex s2"
    using a by simp
qed

theorem test_mint_session_id_witness:
  "test_mint_create sample_env (world_with (Some 7) None) = (Inr created_session, created_world)
   \<and> sessionIndex created_session = 8
   \<and> counters (store created_world) ''day-after-day:session-counter'' = Some 8
   \<and> sessionId created_session = ''sess_8_1700000000000''
   \<and> jsons (store created_world) ''session:sess_8_1700000000000'' = Some created_session"
proof -
  have idx: "sessionIndex created_session = 8"
    by (simp add: created_session_def)
  have now: "date_now sample_env 0 = 1700000000000"
    by (simp add: sample_env_def)
  have sid: "sessionId created_session = ''sess_8_1700000000000''"
    by (simp add: created_session_def)
  show ?thesis
    using test_mint_session_id [OF sample_creation] sample_creation
    by (simp add: idx sid now string_of_int_samples)
qed

section \<open>The invariant linking the mint address and the status\<close>

lemma keeps_inv_ret: "keeps_inv (ret x)"
  by (simp add: keeps_inv_def ret_def)

lemma keeps_inv_throw: "keeps_inv (throw_error msg)"
  by (simp add: keeps_inv_def throw_error_def)

lemma keeps_inv_call: "keeps_inv (call ev r)"
  by (simp add: keeps_inv_def call_def)

lemma keeps_inv_bnd:
  assumes "keeps_inv m" and "\<And>x. keeps_inv (f x)"
  shows "keeps_inv (bnd m f)"
  unfolding keeps_inv_def bnd_def
proof (intro allI impI)
  fix w :: world
  assume inv: "store_inv (store w)"
  obtain r w1 where m: "m w = (r, w1)" by (cases "m w")
  have inv1: "store_inv (store w1)"
    using assms(1) inv m by (auto simp: keeps_inv_def dest!: spec [of _ w])
  show "store_inv (store (snd (case m w of (Inl e, w') \<Rightarrow> (Inl e, w') | (Inr x, w') \<Rightarrow> f x w')))"
  proof (cases r)
    case (Inl e)
    then show ?thesis using m inv1 by simp
  next
    case (Inr x)
    then show ?thesis
      using m inv1 assms(2) [of x] by (simp add: keeps_inv_def)
  qed
qed

lemma keeps_inv_import: "keeps_inv (import_module d path)"
  by (simp add: import_module_def keeps_inv_ret keeps_inv_throw split: option.splits)

lemma keeps_inv_reads:
  "keeps_inv (redis_get d k)"
  "keeps_inv (redis_getJson d k)"
  "keeps_inv (get_connection d)"
  "keeps_inv (get_session_keypair d i)"
  "keeps_inv (get_master_keypair d)"
  "keeps_inv (get_usdc_balance d a)"
  by (simp_all add: keeps_inv_def redis_get_def redis_getJson_def get_connection_def
        get_session_keypair_def get_master_keypair_def get_usdc_balance_def call_def)

lemma keeps_inv_incr: "keeps_inv (redis_incr d k)"
  by (simp add: keeps_inv_def redis_incr_def call_def store_inv_def Let_def
        split: option.splits)

lemma keeps_inv_set:
  assumes "session_inv s"
  shows "keeps_inv (redis_set d k s ttl)"
  using assms
  by (simp add: keeps_inv_def redis_set_def call_def store_inv_def split: option.splits)

lemma keeps_inv_call_poll:
  assumes "keeps_inv (poll r)"
  shows "keeps_inv (call_poll poll r)"
  using assms by (simp add: keeps_inv_def call_poll_def)

lemma scan_loop_store: "store (snd (scan_loop d i tot found w)) = store w"
proof (induction "nat (tot + 1 - i)" arbitrary: i found w)
  case 0
  then show ?case by (simp add: scan_loop.simps [of d i])
next
  case (Suc n)
  then have n: "n = nat (tot + 1 - (i + 1))" by simp
  show ?case
    using Suc.hyps(1) [OF n]
    by (simp add: scan_loop.simps [of d i] get_connection_def get_session_keypair_def
          get_usdc_balance_def call_def split: sum.splits)
qed

lemma keeps_inv_scan_loop: "keeps_inv (scan_loop d i tot found)"
  by (simp add: keeps_inv_def scan_loop_store)

lemma keeps_inv_recover_scan: "keeps_inv (recover_scan d)"
  by (simp add: recover_scan_def Let_def keeps_inv_bnd keeps_inv_reads keeps_inv_scan_loop
        keeps_inv_ret)

lemma keeps_inv_recover_session:
  assumes "\<And>r. keeps_inv (poll r)"
  shows "keeps_inv (recover_session d poll sid)"
  unfolding recover_session_def
  by (intro keeps_inv_bnd keeps_inv_reads)
     (auto intro!: keeps_inv_bnd keeps_inv_reads keeps_inv_ret keeps_inv_import
        keeps_inv_call_poll assms split: option.splits)

lemma keeps_inv_recover_body:
  assumes "\<And>r. keeps_inv (poll r)"
  shows "keeps_inv (recover_body d poll req)"
  unfolding recover_body_def
  by (auto intro!: keeps_inv_bnd keeps_inv_import keeps_inv_recover_scan
        keeps_inv_recover_session assms)

lemma snd_handled:
  "snd (case m w of (Inl msg, w') \<Rightarrow> (error_response 500 msg, w') | (Inr r, w') \<Rightarrow> (r, w'))
     = snd (m w)"
  by (simp split: prod.splits sum.splits)

lemma recover_handler_keeps_inv:
  assumes "\<And>r. keeps_inv (poll r)" and "store_inv (store w)"
  shows "store_inv (store (snd (recover_handler d poll req w)))"
  using keeps_inv_recover_body [where poll = poll and d = d and req = req, OF assms(1)] assms(2)
  by (simp add: recover_handler_def snd_handled keeps_inv_def)

lemma test_mint_create_fresh:
  "keeps_inv (test_mint_create d)"
  unfolding test_mint_create_def Let_def
  by (intro keeps_inv_bnd keeps_inv_incr keeps_inv_reads keeps_inv_ret keeps_inv_set)
     (simp add: session_inv_def)

lemma keeps_inv_test_mint_body:
  assumes "\<And>r. keeps_inv (poll r)"
  shows "keeps_inv (test_mint_body d poll)"
  unfolding test_mint_body_def
  by (intro keeps_inv_bnd keeps_inv_import test_mint_create_fresh keeps_inv_call_poll
        keeps_inv_ret assms)

lemma test_mint_handler_keeps_inv:
  assumes "\<And>r. keeps_inv (poll r)" and "store_inv (store w)"
  shows "store_inv (store (snd (test_mint_handler d poll m w)))"
  using keeps_inv_test_mint_body [where poll = poll and d = d, OF assms(1)] assms(2)
  by (simp add: test_mint_handler_def snd_handled keeps_inv_def)

lemma keeps_inv_poll_underpaid: "keeps_inv (poll_underpaid d r s)"
  unfolding poll_underpaid_def
  by (auto intro!: keeps_inv_bnd keeps_inv_reads keeps_inv_ret)

lemma keeps_inv_pollHandler_spec: "keeps_inv (pollHandler_spec d ttl r)"
  unfolding pollHandler_spec_def Let_def
  by (intro keeps_inv_bnd keeps_inv_reads)
     (auto intro!: keeps_inv_bnd keeps_inv_ret keeps_inv_call keeps_inv_set
        keeps_inv_poll_underpaid simp: session_inv_def split: option.splits)

lemma sample_store_inv: "store_inv (store (world_with c (Some minted_session)))"
  by (simp add: store_inv_def world_with_def session_inv_def minted_session_def)

lemma empty_store_inv: "store_inv (store (world_with c None))"
  by (simp add: store_inv_def world_with_def)

lemma created_world_fields:
  "jsons (store created_world) ''session:sess_8_1700000000000'' = Some created_session"
  "store created_world = \<lparr>counters = (counters (store (world_with (Some 7) None)))
           (''day-after-day:session-counter'' \<mapsto> 8),
         jsons = (jsons (store (world_with (Some 7) None)))
           (''session:sess_8_1700000000000'' \<mapsto> created_session)\<rparr>"
  by (simp_all add: created_world_def)

lemma sample_test_mint_poll:
  "jsons (store (snd (pollHandler_spec sample_env 1800
      \<lparr>p_sessionId = Some (QStr ''sess_8_1700000000000''), p_test = Some ''true''\<rparr>
      (created_world\<lparr>log := log created_world @ [PollCall
         \<lparr>p_sessionId = Some (QStr ''sess_8_1700000000000''), p_test = Some ''true''\<rparr>]\<rparr>))))
      ''session:sess_8_1700000000000'' =
   Some (created_session\<lparr>status := ''minted'', mintAddress := Some ''MintAddr'',
           mintSignature := Some ''MintSig'', sweepSignature := Some ''SweepSig''\<rparr>)"
  by (simp add: pollHandler_spec_def poll_underpaid_def bnd_def ret_def call_def
        redis_getJson_def redis_set_def Let_def created_world_fields sample_env_def
        created_session_def)

lemma sample_test_mint_run:
  "jsons (store (snd (test_mint_handler sample_env (pollHandler_spec sample_env 1800) ''GET''
      (world_with (Some 7) None)))) ''session:sess_8_1700000000000'' =
   Some (created_session\<lparr>status := ''minted'', mintAddress := Some ''MintAddr'',
           mintSignature := Some ''MintSig'', sweepSignature := Some ''SweepSig''\<rparr>)"
proof -
  have sid: "sessionId created_session = ''sess_8_1700000000000''"
    by (simp add: created_session_def)
  have imp: "import_module sample_env p = ret ()" for p
    by (simp add: import_module_def sample_env_def)
  show ?thesis
    using sample_test_mint_poll
    by (auto simp: test_mint_handler_def test_mint_body_def bnd_def ret_def imp
          sample_creation call_poll_def sid split: prod.splits sum.splits)
qed

text \<open>
  Claim C6. In a store where every session record has \<open>mintAddress\<close> non-null exactly
  when its status is \<open>minted\<close>, every record a handler reads has the property, and
  the property still holds of every record after the poll handler, the recovery handler
  or the test-mint handler has run, whether it returned or threw. Every freshly created
  record has status \<open>pending\<close> with \<open>mintAddress\<close>, \<open>mintSignature\<close> and
  \<open>sweepSignature\<close> null, and is the record stored under its key. The poll handler is
  the one modelled above from the specification.
\<close>

theorem mint_address_iff_minted:
  assumes "store_inv (store w)"
  shows "(\<forall>k s. jsons (store w) k = Some s \<longrightarrow> (mintAddress s \<noteq> None) = (status s = ''minted''))
       \<and> store_inv (store (snd (pollHandler_spec d ttl r w)))
       \<and> store_inv (store (snd (recover_handler d (pollHandler_spec d ttl) req w)))
       \<and> store_inv (store (snd (test_mint_handler d (pollHandler_spec d ttl) m w)))
       \<and> (\<forall>s w'. test_mint_create d w = (Inr s, w') \<longrightarrow>
             status s = ''pending'' \<and> mintAddress s = None \<and> mintSignature s = None
             \<and> sweepSignature s = None
             \<and> jsons (store w') (''session:'' @ sessionId s) = Some s)"
proof (intro conjI allI impI)
  fix k s
  assume "jsons (store w) k = Some s"
  then show "(mintAddress s \<noteq> None) = (status s = ''minted'')"
    using assms by (auto simp: store_inv_def session_inv_def)
next
  show "store_inv (store (snd (pollHandler_spec d ttl r w)))"
    using keeps_inv_pollHandler_spec [of d ttl r] assms by (simp add: keeps_inv_def)
  show "store_inv (store (snd (recover_handler d (pollHandler_spec d ttl) req w)))"
    by (rule recover_handler_keeps_inv [OF keeps_inv_pollHandler_spec assms])
  show "store_inv (store (snd (test_mint_handler d (pollHandler_spec d ttl) m w)))"
    by (rule test_mint_handler_keeps_inv [OF keeps_inv_pollHandler_spec assms])
next
  fix s w'
  assume c: "test_mint_create d w = (Inr s, w')"
  show "status s = ''pending''" by (rule test_mint_create_result(5) [OF c])
  show "mintAddress s = None" by (rule test_mint_create_result(6) [OF c])
  show "mintSignature s = None" by (rule test_mint_create_result(7) [OF c])
  show "sweepSignature s = None" by (rule test_mint_create_result(8) [OF c])
  show "jsons (store w') (''session:'' @ sessionId s) = Some s"
    by (simp add: test_mint_create_result(9) [OF c])
qed

theorem mint_address_iff_minted_witness:
  "store_inv (store (world_with (Some 7) (Some minted_session)))
   \<and> mintAddress minted_session = Some ''MintAddr'' \<and> status minted_session = ''minted''
   \<and> store_inv (store (snd (recover_handler sample_env (pollHandler_spec sample_env 1800)
         (sample_req (Some ''sess_7_1700000000000'') (Some ''open-sesame''))
         (world_with (Some 7) (Some minted_session)))))
   \<and> store_inv (store (world_with (Some 7) None))
   \<and> test_mint_create sample_env (world_with (Some 7) None) = (Inr created_session, created_world)
   \<and> status created_session = ''pending'' \<and> mintAddress created_session = None
   \<and> mintSignature created_session = None \<and> sweepSignature created_session = None
   \<and> jsons (store (snd (test_mint_handler sample_env (pollHandler_spec sample_env 1800) ''GET''
         (world_with (Some 7) None)))) ''session:sess_8_1700000000000'' =
       Some (created_session\<lparr>status := ''minted'', mintAddress := Some ''MintAddr'',
               mintSignature := Some ''MintSig'', sweepSignature := Some ''SweepSig''\<rparr>)
   \<and> store_inv (store (snd (test_mint_handler sample_env (pollHandler_spec sample_env 1800)
         ''GET'' (world_with (Some 7) None))))"
proof -
  have m: "mintAddress minted_session = Some ''MintAddr'' \<and> status minted_session = ''minted''"
    by (simp add: minted_session_def)
  have old: "store_inv (store (snd (recover_handler sample_env (pollHandler_spec sample_env 1800)
         (sample_req (Some ''sess_7_1700000000000'') (Some ''open-sesame''))
         (world_with (Some 7) (Some minted_session)))))"
    using mint_address_iff_minted [OF sample_store_inv, of "Some 7" sample_env 1800]
    by blast
  have new: "status created_session = ''pending'' \<and> mintAddress created_session = None
      \<and> mintSignature created_session = None \<and> sweepSignature created_session = None
      \<and> store_inv (store (snd (test_mint_handler sample_env (pollHandler_spec sample_env 1800)
           ''GET'' (world_with (Some 7) None))))"
    using mint_address_iff_minted [OF empty_store_inv, of "Some 7" sample_env 1800]
      sample_creation
    by blast
  show ?thesis
    using m old new sample_store_inv [of "Some 7"] empty_store_inv [of "Some 7"]
      sample_creation sample_test_mint_run
    by simp
qed

section \<open>The upload handler\<close>

lemma upload_body_success:
  assumes "upload_body d req w = (Inr r, w')"
  shows "\<exists>form file content pd cid.
           u_form req = Inr form
         \<and> first_value (files_file form) = Some file
         \<and> readFileSync d (filepath file) = Inr content
         \<and> pinFileToIPFS d (trim (case PINATA_JWT d of None \<Rightarrow> [] | Some j \<Rightarrow> j))
              (''day-after-day-'' @ string_of_int (date_now d 0) @ ''.''
                 @ extension_of (mime_or_default (mimetype file)))
              (mime_or_default (mimetype file)) content = Inr pd
         \<and> IpfsHash pd = Some cid \<and> cid \<noteq> []
         \<and> r = json_response 200
               (JObj [(''success'', JBool True),
                      (''fileUri'', JStr (''https://gateway.pinata.cloud/ipfs/'' @ cid)),
                      (''cid'', JStr cid),
                      (''mimeType'', JStr (mime_or_default (mimetype file))),
                      (''outputType'', JStr (output_type_or_default (fields_outputType form)))])
         \<and> w' = w\<lparr>log := log w @
               [ReadFile (filepath file),
                PinFile (''day-after-day-'' @ string_of_int (date_now d 0) @ ''.''
                           @ extension_of (mime_or_default (mimetype file)))
                  (mime_or_default (mimetype file)) content,
                Unlink (filepath file)]\<rparr>"
  using assms
  by (auto simp: upload_body_def Let_def bnd_def ret_def throw_error_def
        call_def import_module_def
        split: if_splits option.splits sum.splits prod.splits)

lemma upload_200_returns:
  assumes "u_method req = ''POST''" and "code (fst (upload_handler d req w)) = 200"
  shows "\<exists>r w'. upload_body d req w = (Inr r, w') \<and> upload_handler d req w = (r, w')"
proof -
  obtain x w' where b: "upload_body d req w = (x, w')"
    by (cases "upload_body d req w")
  show ?thesis
  proof (cases x)
    case (Inl msg)
    then have "code (fst (upload_handler d req w)) = 500"
      using assms(1) b by (simp add: upload_handler_def error_response_def json_response_def)
    then show ?thesis using assms(2) by simp
  next
    case (Inr r)
    then show ?thesis
      using assms(1) b by (simp add: upload_handler_def)
  qed
qed

lemma upload_handler_200:
  assumes "u_method req = ''POST''" and "code (fst (upload_handler d req w)) = 200"
  shows "\<exists>form file content pd cid.
           u_form req = Inr form
         \<and> first_value (files_file form) = Some file
         \<and> readFileSync d (filepath file) = Inr content
         \<and> pinFileToIPFS d (trim (case PINATA_JWT d of None \<Rightarrow> [] | Some j \<Rightarrow> j))
              (''day-after-day-'' @ string_of_int (date_now d 0) @ ''.''
                 @ extension_of (mime_or_default (mimetype file)))
              (mime_or_default (mimetype file)) content = Inr pd
         \<and> IpfsHash pd = Some cid \<and> cid \<noteq> []
         \<and> fst (upload_handler d req w) =
             json_response 200
               (JObj [(''success'', JBool True),
                      (''fileUri'', JStr (''https://gateway.pinata.cloud/ipfs/'' @ cid)),
                      (''cid'', JStr cid),
                      (''mimeType'', JStr (mime_or_default (mimetype file))),
                      (''outputType'', JStr (output_type_or_default (fields_outputType form)))])"
proof -
  obtain r w' where b: "upload_body d req w = (Inr r, w')"
    and h: "upload_handler d req w = (r, w')"
    using upload_200_returns [OF assms] by blast
  show ?thesis
    using upload_body_success [OF b] h by force
qed

lemma trim_sample: "trim '' pinata-jwt '' = ''pinata-jwt''"
  by (simp add: trim_def white_space_def match_len_def)

lemma extension_samples:
  "extension_of ''video/webm'' = ''webm''"
  "extension_of ''image/png'' = ''png''"
  by (simp_all add: extension_of_def)

lemma sample_upload_run:
  "upload_handler sample_env (sample_upload mime out) w =
     (json_response 200
       (JObj [(''success'', JBool True),
              (''fileUri'', JStr ''https://gateway.pinata.cloud/ipfs/cid-of-webm-bytes''),
              (''cid'', JStr ''cid-of-webm-bytes''),
              (''mimeType'', JStr (mime_or_default mime)),
              (''outputType'', JStr (output_type_or_default out))]),
      w\<lparr>log := log w @
        [ReadFile ''/tmp/upload1'',
         PinFile (''day-after-day-1700000000000.'' @ extension_of (mime_or_default mime))
           (mime_or_default mime) ''webm-bytes'',
         Unlink ''/tmp/upload1'']\<rparr>)"
  by (simp add: upload_handler_def upload_body_def Let_def bnd_def ret_def throw_error_def
        call_def import_module_def sample_upload_def sample_env_def trim_sample
        string_of_int_samples)

text \<open>
  Claim C7. For every successful upload request (a POST answered 200) the form held a
  file, the file was read, and the pinning service, called with the trimmed credential,
  the generated file name, the mime type and the content of that file, returned a
  document whose \<open>IpfsHash\<close> is non-empty. The body of the response is
  \<open>{success: true, fileUri, cid, mimeType, outputType}\<close>, where \<open>cid\<close> is that
  \<open>IpfsHash\<close> and \<open>fileUri\<close> is \<open>https://gateway.pinata.cloud/ipfs/\<close> followed by
  that \<open>cid\<close>; the calls made are the read, the one pinning call and the removal of
  the temporary file.
\<close>

theorem upload_success_response:
  assumes "u_method req = ''POST''" and "code (fst (upload_handler d req w)) = 200"
  shows "\<exists>form file content pd cid.
           u_form req = Inr form
         \<and> first_value (files_file form) = Some file
         \<and> readFileSync d (filepath file) = Inr content
         \<and> pinFileToIPFS d (trim (case PINATA_JWT d of None \<Rightarrow> [] | Some j \<Rightarrow> j))
              (''day-after-day-'' @ string_of_int (date_now d 0) @ ''.''
                 @ extension_of (mime_or_default (mimetype file)))
              (mime_or_default (mimetype file)) content = Inr pd
         \<and> IpfsHash pd = Some cid \<and> cid \<noteq> []
         \<and> upload_handler d req w =
             (json_response 200
               (JObj [(''success'', JBool True),
                      (''fileUri'', JStr (''https://gateway.pinata.cloud/ipfs/'' @ cid)),
                      (''cid'', JStr cid),
                      (''mimeType'', JStr (mime_or_default (mimetype file))),
                      (''outputType'', JStr (output_type_or_default (fields_outputType form)))]),
              w\<lparr>log := log w @
                [ReadFile (filepath file),
                 PinFile (''day-after-day-'' @ string_of_int (date_now d 0) @ ''.''
                            @ extension_of (mime_or_default (mimetype file)))
                   (mime_or_default (mimetype file)) content,
                 Unlink (filepath file)]\<rparr>)"
proof -
  obtain r w' where b: "upload_body d req w = (Inr r, w')"
    and h: "upload_handler d req w = (r, w')"
    using upload_200_returns [OF assms] by blast
  show ?thesis
    using upload_body_success [OF b] h by force
qed

text \<open>
  An upload of a PNG read as \<open>webm-bytes\<close>, on a pinning service whose hash depends on
  the content and which refuses any credential but \<open>pinata-jwt\<close>.
\<close>

theorem upload_success_response_witness:
  "u_method (sample_upload (Some ''image/png'') (Some (Several ''photo'' []))) = ''POST''
   \<and> code (fst (upload_handler sample_env
        (sample_upload (Some ''image/png'') (Some (Several ''photo'' [])))
        (world_with None None))) = 200
   \<and> readFileSync sample_env ''/tmp/upload1'' = Inr ''webm-bytes''
   \<and> pinFileToIPFS sample_env (trim '' pinata-jwt '') ''day-after-day-1700000000000.png''
        ''image/png'' ''webm-bytes''
        = Inr \<lparr>IpfsHash = Some ''cid-of-webm-bytes'', stringified = ''{IpfsHash}''\<rparr>
   \<and> upload_handler sample_env
        (sample_upload (Some ''image/png'') (Some (Several ''photo'' [])))
        (world_with None None) =
      (json_response 200
        (JObj [(''success'', JBool True),
               (''fileUri'', JStr ''https://gateway.pinata.cloud/ipfs/cid-of-webm-bytes''),
               (''cid'', JStr ''cid-of-webm-bytes''),
               (''mimeType'', JStr ''image/png''),
               (''outputType'', JStr ''photo'')]),
       (world_with None None)\<lparr>log :=
         [ReadFile ''/tmp/upload1'',
          PinFile ''day-after-day-1700000000000.png'' ''image/png'' ''webm-bytes'',
          Unlink ''/tmp/upload1'']\<rparr>)"
proof -
  let ?req = "sample_upload (Some ''image/png'') (Some (Several ''photo'' []))"
  have m: "u_method ?req = ''POST''" by (simp add: sample_upload_def)
  have run: "upload_handler sample_env ?req (world_with None None) =
      (json_response 200
        (JObj [(''success'', JBool True),
               (''fileUri'', JStr ''https://gateway.pinata.cloud/ipfs/cid-of-webm-bytes''),
               (''cid'', JStr ''cid-of-webm-bytes''),
               (''mimeType'', JStr ''image/png''),
               (''outputType'', JStr ''photo'')]),
       (world_with None None)\<lparr>log :=
         [ReadFile ''/tmp/upload1'',
          PinFile ''day-after-day-1700000000000.png'' ''image/png'' ''webm-bytes'',
          Unlink ''/tmp/upload1'']\<rparr>)"
    by (simp add: sample_upload_run mime_or_default_def extension_samples world_with_def)
  have c: "code (fst (upload_handler sample_env ?req (world_with None None))) = 200"
    by (simp add: run json_response_def)
  have rd: "readFileSync sample_env ''/tmp/upload1'' = Inr ''webm-bytes''"
    by (simp add: sample_env_def)
  have p: "pinFileToIPFS sample_env (trim '' pinata-jwt '') ''day-after-day-1700000000000.png''
      ''image/png'' ''webm-bytes''
      = Inr \<lparr>IpfsHash = Some ''cid-of-webm-bytes'', stringified = ''{IpfsHash}''\<rparr>"
    by (simp add: sample_env_def trim_sample)
  show ?thesis
    using upload_success_response [OF m c] m c rd p run by simp
qed

text \<open>
  Claim C10. For every successful upload request whose form has no \<open>outputType\<close>
  field, the response gives \<open>outputType: 'video'\<close>; and when the uploaded file carries
  no mime type, it gives \<open>mimeType: 'video/webm'\<close>.
\<close>

theorem upload_defaults:
  assumes "u_method req = ''POST''" and "code (fst (upload_handler d req w)) = 200"
    and "u_form req = Inr form"
  shows "(fields_outputType form = None \<longrightarrow>
            response_field ''outputType'' (fst (upload_handler d req w)) = Some (JStr ''video''))
       \<and> (\<forall>file. first_value (files_file form) = Some file \<and> mimetype file = None \<longrightarrow>
            response_field ''mimeType'' (fst (upload_handler d req w)) = Some (JStr ''video/webm''))"
  using upload_handler_200 [OF assms(1,2)] assms(3)
  by (auto simp: response_field_def json_response_def mime_or_default_def)

theorem upload_defaults_witness:
  "u_method (sample_upload None None) = ''POST''
   \<and> code (fst (upload_handler sample_env (sample_upload None None) (world_with None None))) = 200
   \<and> response_field ''outputType''
        (fst (upload_handler sample_env (sample_upload None None) (world_with None None)))
        = Some (JStr ''video'')
   \<and> response_field ''mimeType''
        (fst (upload_handler sample_env (sample_upload None None) (world_with None None)))
        = Some (JStr ''video/webm'')"
proof -
  let ?req = "sample_upload None None"
  let ?form = "\<lparr>files_file = Some (Several \<lparr>filepath = ''/tmp/upload1'', mimetype = None\<rparr> []),
                 fields_outputType = None\<rparr>"
  have m: "u_method ?req = ''POST''" by (simp add: sample_upload_def)
  have c: "code (fst (upload_handler sample_env ?req (world_with None None))) = 200"
    by (simp add: sample_upload_run json_response_def)
  have f: "u_form ?req = Inr ?form" by (simp add: sample_upload_def)
  show ?thesis
    using upload_defaults [OF m c f] m c by simp
qed

end
